theory Spec2Isabelle
  imports Complex_Main "HOL-Library.Multiset"
begin

section \<open>The genetic-algorithm calibration engine of FRED\<close>

text \<open>
  The development embeds the calibration classes of
  \<^verbatim>\<open>fredpy/genetic_algorithm_calibration\<close> (\<^verbatim>\<open>parameter.py\<close>,
  \<^verbatim>\<open>genetic_calibration_param_group.py\<close>, \<^verbatim>\<open>genetic_calibration.py\<close>) and the two
  generation updates of \<^verbatim>\<open>bin/calibrate_opiod_params.py\<close>.

  Conventions of the embedding:
  \<^item> a Python \<^verbatim>\<open>float\<close> is a \<^typ>\<open>real\<close>: arithmetic is exact, rounding, infinities and
    NaN are not modelled;
  \<^item> a method that can raise returns \<open>py_error + 'a\<close>, \<open>Inl\<close> carrying the exception;
    every \<^verbatim>\<open>raise\<close> of the source and every implicit exception of an operation it uses
    (a missing key, an index out of range, a division by zero) is a branch;
  \<^item> a \<^verbatim>\<open>dict\<close> is an association list in insertion order, as Python iterates it;
  \<^item> the pseudo-random generator is the sequence of values that the coming calls of
    \<^verbatim>\<open>random.random()\<close> return, each in \<open>[0, 1)\<close>; a method that draws takes the sequence
    and returns what is left of it.
\<close>

subsection \<open>Exceptions\<close>

text \<open>
  \<^verbatim>\<open>ValueError\<close> carries which \<^verbatim>\<open>raise\<close> statement of the source it comes from (the
  messages themselves are not modelled).
\<close>

datatype value_error =
    Value_out_of_range
  | Min_not_less_than_max
  | Mutation_prob_out_of_range
  | Breed_different_names
  | Rate_out_of_range
  | Append_existing_parameter
  | Breed_different_list_sizes
  | Breed_different_index_dicts
  | Different_keys
  | Outcomes_not_set
  | Name_read_only
  | Set_min_val_not_less_than_max
  | Set_max_val_not_greater_than_min

text \<open>
  \<^verbatim>\<open>IndexError\<close> is raised by a list index out of range and by the size check of the two
  generation updates.
\<close>

datatype index_error =
    List_index_out_of_range
  | List_not_exactly_ten_items

datatype py_error =
    ValueError value_error
  | IndexError index_error
  | KeyError string
  | ZeroDivisionError
  | TypeError
  | NameError
  | AttributeError

definition bind :: "py_error + 'a \<Rightarrow> ('a \<Rightarrow> py_error + 'b) \<Rightarrow> py_error + 'b" where
  "bind m f = (case m of Inl e \<Rightarrow> Inl e | Inr x \<Rightarrow> f x)"

subsection \<open>The random module\<close>

type_synonym rng = "nat \<Rightarrow> real"

text \<open>\<^verbatim>\<open>random.random()\<close>: the next value of the sequence.\<close>

definition random :: "rng \<Rightarrow> real \<times> rng" where
  "random g = (g 0, \<lambda>n. g (Suc n))"

text \<open>\<^verbatim>\<open>random.uniform(a, b)\<close> is \<^verbatim>\<open>a + (b - a) * self.random()\<close> in the standard library.\<close>

definition uniform :: "real \<Rightarrow> real \<Rightarrow> rng \<Rightarrow> real \<times> rng" where
  "uniform a b g = (case random g of (u, g') \<Rightarrow> (a + (b - a) * u, g'))"

text \<open>The generator only yields values of the half-open unit interval.\<close>

definition unit_draws :: "rng \<Rightarrow> bool" where
  "unit_draws g = (\<forall>n. 0 \<le> g n \<and> g n < 1)"

subsection \<open>\<^verbatim>\<open>parameter.py\<close>: Parameter and BreedableParameter\<close>

record Parameter =
  name :: string
  val :: real
  min_val :: real
  max_val :: real

record BreedableParameter = Parameter +
  mutation_prob :: real

text \<open>\<^verbatim>\<open>Parameter.__init__\<close>\<close>

definition Parameter_init :: "string \<Rightarrow> real \<Rightarrow> real \<Rightarrow> real \<Rightarrow> py_error + Parameter" where
  "Parameter_init n v lo hi =
     (if v < lo \<or> v > hi then Inl (ValueError Value_out_of_range)
      else if lo \<ge> hi then Inl (ValueError Min_not_less_than_max)
      else Inr \<lparr>name = n, val = v, min_val = lo, max_val = hi\<rparr>)"

text \<open>The property setters of \<^verbatim>\<open>Parameter\<close>; \<^verbatim>\<open>name\<close> is read-only.\<close>

definition set_name :: "'a Parameter_scheme \<Rightarrow> string \<Rightarrow> py_error + 'a Parameter_scheme" where
  "set_name p v = Inl (ValueError Name_read_only)"


definition set_min_val :: "'a Parameter_scheme \<Rightarrow> real \<Rightarrow> py_error + 'a Parameter_scheme" where
  "set_min_val p v =
     (if v \<ge> max_val p then Inl (ValueError Set_min_val_not_less_than_max)
      else Inr (p\<lparr>min_val := v\<rparr>))"

definition set_max_val :: "'a Parameter_scheme \<Rightarrow> real \<Rightarrow> py_error + 'a Parameter_scheme" where
  "set_max_val p v =
     (if v \<le> min_val p then Inl (ValueError Set_max_val_not_greater_than_min)
      else Inr (p\<lparr>max_val := v\<rparr>))"

text \<open>\<^verbatim>\<open>BreedableParameter.__init__\<close>: the checks of the base class first.\<close>

definition BreedableParameter_init ::
  "string \<Rightarrow> real \<Rightarrow> real \<Rightarrow> real \<Rightarrow> real \<Rightarrow> py_error + BreedableParameter" where
  "BreedableParameter_init n v lo hi mp =
     bind (Parameter_init n v lo hi) (\<lambda>p.
       if mp < 0 \<or> mp > 1 then Inl (ValueError Mutation_prob_out_of_range)
       else Inr \<lparr>name = name p, val = val p, min_val = min_val p, max_val = max_val p,
                 mutation_prob = mp\<rparr>)"

definition set_mutation_prob :: "BreedableParameter \<Rightarrow> real \<Rightarrow> py_error + BreedableParameter" where
  "set_mutation_prob p v =
     (if v < 0 \<or> v > 1 then Inl (ValueError Mutation_prob_out_of_range)
      else Inr (p\<lparr>mutation_prob := v\<rparr>))"

definition clone :: "BreedableParameter \<Rightarrow> py_error + BreedableParameter" where
  "clone self =
     BreedableParameter_init (name self) (val self) (min_val self) (max_val self)
       (mutation_prob self)"

text \<open>\<^verbatim>\<open>BreedableParameter.generate_random\<close> (a static method).\<close>

definition generate_random ::
  "string \<Rightarrow> real \<Rightarrow> real \<Rightarrow> real \<Rightarrow> real \<Rightarrow> real \<Rightarrow> rng
     \<Rightarrow> py_error + (BreedableParameter \<times> rng)" where
  "generate_random n lo hi min_rnd_val max_rnd_val mp g =
     (case uniform min_rnd_val max_rnd_val g of (v, g') \<Rightarrow>
        bind (BreedableParameter_init n v lo hi mp) (\<lambda>p. Inr (p, g')))"

text \<open>
  \<^verbatim>\<open>BreedableParameter.breed\<close>. The division by \<^verbatim>\<open>total_range\<close> is a float division:
  Python raises \<^verbatim>\<open>ZeroDivisionError\<close> when the divisor is zero.
\<close>

definition breed ::
  "BreedableParameter \<Rightarrow> BreedableParameter \<Rightarrow> rng \<Rightarrow> py_error + (BreedableParameter \<times> rng)" where
  "breed self other_param g =
     (if name self \<noteq> name other_param then Inl (ValueError Breed_different_names)
      else if val self = val other_param then
        generate_random (name self) (min_val self) (max_val self) (min_val self) (max_val self)
          (mutation_prob self) g
      else
        (case uniform 0 1 g of (u, g1) \<Rightarrow>
          if u < mutation_prob self then
            (case uniform 0 1 g1 of (rnd, g2) \<Rightarrow>
              if val self < val other_param then
                (let total_range = (val self - min_val self) + (max_val self - val other_param) in
                 if total_range = 0 then Inl ZeroDivisionError
                 else if rnd < (val self - min_val self) / total_range then
                   generate_random (name self) (min_val self) (max_val self) (min_val self)
                     (val self) (mutation_prob self) g2
                 else
                   generate_random (name self) (min_val self) (max_val self) (val other_param)
                     (max_val self) (mutation_prob self) g2)
              else
                (let total_range = (val other_param - min_val self) + (max_val self - val self) in
                 if total_range = 0 then Inl ZeroDivisionError
                 else if rnd < (val other_param - min_val self) / total_range then
                   generate_random (name self) (min_val self) (max_val self) (min_val self)
                     (val other_param) (mutation_prob self) g2
                 else
                   generate_random (name self) (min_val self) (max_val self) (val self)
                     (max_val self) (mutation_prob self) g2))
          else if val self < val other_param then
            (case uniform (val self) (val other_param) g1 of (v, g2) \<Rightarrow>
               bind (BreedableParameter_init (name self) v (min_val self) (max_val self)
                       (mutation_prob self)) (\<lambda>p. Inr (p, g2)))
          else
            (case uniform (val other_param) (val self) g1 of (v, g2) \<Rightarrow>
               bind (BreedableParameter_init (name self) v (min_val self) (max_val self)
                       (mutation_prob self)) (\<lambda>p. Inr (p, g2)))))"

text \<open>\<^verbatim>\<open>BreedableParameter.move_towards_value\<close>\<close>

definition move_towards_value ::
  "BreedableParameter \<Rightarrow> real \<Rightarrow> real \<Rightarrow> py_error + BreedableParameter" where
  "move_towards_value self target rate =
     (if rate < 0 \<or> rate > 1 then Inl (ValueError Rate_out_of_range)
      else
        (let total_distance =
               (if target > max_val self then \<bar>max_val self - val self\<bar>
                else if target < min_val self then \<bar>val self - min_val self\<bar>
                else \<bar>target - val self\<bar>)
         in
           if val self < target then
             BreedableParameter_init (name self) (val self + total_distance * rate)
               (min_val self) (max_val self) (mutation_prob self)
           else if val self > target then
             BreedableParameter_init (name self) (val self - total_distance * rate)
               (min_val self) (max_val self) (mutation_prob self)
           else
             BreedableParameter_init (name self) (val self) (min_val self) (max_val self)
               (mutation_prob self)))"

text \<open>
  What the two constructors check: the state of a parameter right after its construction.
\<close>

definition well_formed :: "BreedableParameter \<Rightarrow> bool" where
  "well_formed p =
     (min_val p \<le> val p \<and> val p \<le> max_val p \<and> min_val p < max_val p \<and>
      0 \<le> mutation_prob p \<and> mutation_prob p \<le> 1)"

subsection \<open>Dictionaries and list indexing\<close>

type_synonym 'v dict = "(string \<times> 'v) list"

definition keys :: "'v dict \<Rightarrow> string list" where
  "keys d = map fst d"

text \<open>\<^verbatim>\<open>d[k]\<close>: a missing key raises \<^verbatim>\<open>KeyError\<close>.\<close>

definition dict_get :: "'v dict \<Rightarrow> string \<Rightarrow> py_error + 'v" where
  "dict_get d k = (case map_of d k of None \<Rightarrow> Inl (KeyError k) | Some v \<Rightarrow> Inr v)"

text \<open>\<^verbatim>\<open>d[k] = v\<close>: a present key keeps its place, a new key goes last.\<close>

fun dict_set :: "'v dict \<Rightarrow> string \<Rightarrow> 'v \<Rightarrow> 'v dict" where
  "dict_set [] k v = [(k, v)]"
| "dict_set ((k', v') # d) k v = (if k' = k then (k, v) # d else (k', v') # dict_set d k v)"

text \<open>\<^verbatim>\<open>del d[k]\<close>\<close>

definition dict_del :: "'v dict \<Rightarrow> string \<Rightarrow> py_error + 'v dict" where
  "dict_del d k =
     (if k \<in> set (keys d) then Inr (filter (\<lambda>kv. fst kv \<noteq> k) d) else Inl (KeyError k))"

text \<open>\<^verbatim>\<open>xs[i]\<close> for an index that is not negative.\<close>

definition list_get :: "'a list \<Rightarrow> nat \<Rightarrow> py_error + 'a" where
  "list_get xs i = (if i < length xs then Inr (xs ! i) else Inl (IndexError List_index_out_of_range))"

subsection \<open>\<^verbatim>\<open>genetic_calibration_param_group.py\<close>: BreedableParameterGoup\<close>

record BreedableParameterGoup =
  param_list :: "BreedableParameter list"
  param_index_dict :: "nat dict"

definition BreedableParameterGoup_init :: BreedableParameterGoup where
  "BreedableParameterGoup_init = \<lparr>param_list = [], param_index_dict = []\<rparr>"

text \<open>\<^verbatim>\<open>BreedableParameterGoup.append\<close>\<close>

definition group_append ::
  "BreedableParameterGoup \<Rightarrow> BreedableParameter \<Rightarrow> py_error + BreedableParameterGoup" where
  "group_append self parameter =
     (if name parameter \<in> set (keys (param_index_dict self)) then
        Inl (ValueError Append_existing_parameter)
      else
        (let new_list = param_list self @ [parameter] in
         Inr \<lparr>param_list = new_list,
              param_index_dict =
                dict_set (param_index_dict self) (name parameter) (length new_list - 1)\<rparr>))"

text \<open>
  \<^verbatim>\<open>BreedableParameterGoup.remove\<close>. The method works on the object in place, so the
  model returns the group as the call leaves it together with the exception, if one was
  raised. The loop assigns \<^verbatim>\<open>value - 1\<close> to keys that are present, which Python allows
  while iterating. The last statement is \<^verbatim>\<open>self.__param_list.pop([idx])\<close>: the argument is
  a list, not an integer, and \<^verbatim>\<open>list.pop\<close> raises \<^verbatim>\<open>TypeError\<close> before it touches the list.
\<close>

definition reindex :: "nat dict \<Rightarrow> nat \<Rightarrow> nat dict" where
  "reindex d idx =
     foldl (\<lambda>acc (key, value). if value > idx then dict_set acc key (value - 1) else acc) d d"

definition group_remove ::
  "BreedableParameterGoup \<Rightarrow> BreedableParameter \<Rightarrow> BreedableParameterGoup \<times> py_error option" where
  "group_remove self parameter =
     (if name parameter \<in> set (keys (param_index_dict self)) then
        (case dict_get (param_index_dict self) (name parameter) of
           Inl e \<Rightarrow> (self, Some e)
         | Inr idx \<Rightarrow>
             (case dict_del (reindex (param_index_dict self) idx) (name parameter) of
                Inl e \<Rightarrow> (self\<lparr>param_index_dict := reindex (param_index_dict self) idx\<rparr>, Some e)
              | Inr d \<Rightarrow> (self\<lparr>param_index_dict := d\<rparr>, Some TypeError)))
      else (self, None))"

text \<open>\<^verbatim>\<open>BreedableParameterGoup.get_as_dictionary\<close>\<close>

fun get_as_dictionary_loop ::
  "BreedableParameter list \<Rightarrow> nat dict \<Rightarrow> real dict \<Rightarrow> py_error + real dict" where
  "get_as_dictionary_loop ps [] ret_val = Inr ret_val"
| "get_as_dictionary_loop ps ((nm, idx) # items) ret_val =
     bind (list_get ps idx) (\<lambda>p. get_as_dictionary_loop ps items (dict_set ret_val nm (val p)))"

definition get_as_dictionary :: "BreedableParameterGoup \<Rightarrow> py_error + real dict" where
  "get_as_dictionary self = get_as_dictionary_loop (param_list self) (param_index_dict self) []"



text \<open>\<^verbatim>\<open>BreedableParameterGoup.breed\<close>\<close>

fun group_breed_loop ::
  "BreedableParameter list \<Rightarrow> BreedableParameter list \<Rightarrow> nat dict \<Rightarrow> nat dict
     \<Rightarrow> BreedableParameterGoup \<Rightarrow> rng \<Rightarrow> py_error + (BreedableParameterGoup \<times> rng)" where
  "group_breed_loop ps qs other_dict [] new_group g = Inr (new_group, g)"
| "group_breed_loop ps qs other_dict ((nm, idx) # items) new_group g =
     bind (dict_get other_dict nm) (\<lambda>other_idx.
     bind (list_get ps idx) (\<lambda>p.
     bind (list_get qs other_idx) (\<lambda>q.
     bind (breed p q g) (\<lambda>(child, g').
     bind (group_append new_group child) (\<lambda>new_group'.
     group_breed_loop ps qs other_dict items new_group' g')))))"

definition group_breed ::
  "BreedableParameterGoup \<Rightarrow> BreedableParameterGoup \<Rightarrow> rng
     \<Rightarrow> py_error + (BreedableParameterGoup \<times> rng)" where
  "group_breed self other_param_group g =
     (if length (param_list self) \<noteq> length (param_list other_param_group) then
        Inl (ValueError Breed_different_list_sizes)
      else if set (keys (param_index_dict self)) \<noteq> set (keys (param_index_dict other_param_group))
      then Inl (ValueError Breed_different_index_dicts)
      else
        group_breed_loop (param_list self) (param_list other_param_group)
          (param_index_dict other_param_group) (param_index_dict self)
          BreedableParameterGoup_init g)"

text \<open>
  \<^verbatim>\<open>BreedableParameterGoup.gradient_update_to_target\<close>: first the multipliers, one for
  each outcome whose target and value are both nonzero; then, for each parameter, the first
  metric of \<^verbatim>\<open>target_to_parameters_weights\<close> whose weights name the parameter.
\<close>

fun target_multipliers_loop ::
  "real dict \<Rightarrow> real dict \<Rightarrow> real dict \<Rightarrow> py_error + real dict" where
  "target_multipliers_loop [] targets target_multipliers = Inr target_multipliers"
| "target_multipliers_loop ((nm, outcome) # items) targets target_multipliers =
     bind (dict_get targets nm) (\<lambda>target.
       if target = 0 \<or> outcome = 0 then
         target_multipliers_loop items targets target_multipliers
       else
         target_multipliers_loop items targets
           (dict_set target_multipliers nm (1 / (outcome / target))))"

fun target_param_val_loop ::
  "BreedableParameter list \<Rightarrow> nat \<Rightarrow> string \<Rightarrow> real dict \<Rightarrow> (real dict) dict
     \<Rightarrow> py_error + real option" where
  "target_param_val_loop ps idx param_name target_multipliers [] = Inr None"
| "target_param_val_loop ps idx param_name target_multipliers ((target_name, weight_dict) # rest) =
     (if param_name \<in> set (keys weight_dict) then
        bind (list_get ps idx) (\<lambda>p.
        bind (dict_get weight_dict param_name) (\<lambda>weight.
        bind (dict_get target_multipliers target_name) (\<lambda>multiplier.
        Inr (Some (val p * weight * multiplier)))))
      else target_param_val_loop ps idx param_name target_multipliers rest)"

fun gradient_update_loop ::
  "BreedableParameter list \<Rightarrow> real dict \<Rightarrow> (real dict) dict \<Rightarrow> nat dict
     \<Rightarrow> BreedableParameterGoup \<Rightarrow> py_error + BreedableParameterGoup" where
  "gradient_update_loop ps target_multipliers weights [] new_group = Inr new_group"
| "gradient_update_loop ps target_multipliers weights ((param_name, idx) # items) new_group =
     bind (target_param_val_loop ps idx param_name target_multipliers weights) (\<lambda>found.
     bind (list_get ps idx) (\<lambda>p.
     bind (case found of
             Some target_param_val \<Rightarrow> move_towards_value p target_param_val (85 / 100)
           | None \<Rightarrow> clone p) (\<lambda>new_param.
     bind (group_append new_group new_param) (\<lambda>new_group'.
     gradient_update_loop ps target_multipliers weights items new_group'))))"

definition group_gradient_update_to_target ::
  "BreedableParameterGoup \<Rightarrow> real dict \<Rightarrow> real dict \<Rightarrow> (real dict) dict
     \<Rightarrow> py_error + BreedableParameterGoup" where
  "group_gradient_update_to_target self outcomes targets target_to_parameters_weights =
     bind (target_multipliers_loop outcomes targets []) (\<lambda>target_multipliers.
       gradient_update_loop (param_list self) target_multipliers target_to_parameters_weights
         (param_index_dict self) BreedableParameterGoup_init)"

subsection \<open>\<^verbatim>\<open>genetic_calibration.py\<close>: GeneticCalibration\<close>

text \<open>\<^verbatim>\<open>sys.float_info.max\<close>, the largest finite double.\<close>

definition float_info_max :: real where
  "float_info_max = (2 ^ 53 - 1) * 2 ^ 971"

text \<open>
  The attribute \<^verbatim>\<open>__outcomes\<close> is a reference that the code compares with \<^verbatim>\<open>None\<close>;
  the constructor sets it to the empty dictionary.
\<close>

record GeneticCalibration =
  param_group :: BreedableParameterGoup
  targets :: "real dict"
  outcomes :: "real dict option"
  target_to_parameters_weights :: "(real dict) dict"
  threshold :: real
  evaluated_error :: real
  fred_key :: "string option"

definition GeneticCalibration_init :: GeneticCalibration where
  "GeneticCalibration_init =
     \<lparr>param_group = BreedableParameterGoup_init, targets = [], outcomes = Some [],
      target_to_parameters_weights = [], threshold = 1 / 10,
      evaluated_error = float_info_max, fred_key = None\<rparr>"

text \<open>\<^verbatim>\<open>GeneticCalibration.evaluate\<close>: the candidate after the call, or the exception.\<close>

fun squared_error_loop :: "real dict \<Rightarrow> real dict \<Rightarrow> real \<Rightarrow> py_error + real" where
  "squared_error_loop [] outs squared_error = Inr squared_error"
| "squared_error_loop ((target_name, target_value) # items) outs squared_error =
     bind (dict_get outs target_name) (\<lambda>other_value.
       if target_value = 0 then
         squared_error_loop items outs
           (squared_error + ((target_value - other_value) / (1 / 1000)) ^ 2)
       else
         squared_error_loop items outs
           (squared_error + ((target_value - other_value) / target_value) ^ 2))"

definition evaluate :: "GeneticCalibration \<Rightarrow> real dict \<Rightarrow> py_error + GeneticCalibration" where
  "evaluate self outs =
     (if set (keys (targets self)) \<noteq> set (keys outs) then Inl (ValueError Different_keys)
      else
        bind (squared_error_loop (targets self) outs 0) (\<lambda>squared_error.
          Inr (self\<lparr>outcomes := Some outs, evaluated_error := sqrt squared_error\<rparr>)))"

text \<open>
  \<^verbatim>\<open>GeneticCalibration.evaluate_individual_error_contributions\<close>. The message of the
  second \<^verbatim>\<open>raise\<close> formats the name \<^verbatim>\<open>outcomes\<close>, which is not bound in this method, so
  what the statement raises is \<^verbatim>\<open>NameError\<close>.
\<close>

fun error_contributions_loop :: "real dict \<Rightarrow> real dict \<Rightarrow> real dict \<Rightarrow> py_error + real dict" where
  "error_contributions_loop [] outs ret_val = Inr ret_val"
| "error_contributions_loop ((target_name, target_value) # items) outs ret_val =
     bind (dict_get outs target_name) (\<lambda>other_value.
       if target_value = 0 then
         error_contributions_loop items outs
           (dict_set ret_val target_name
              (sqrt (((target_value - other_value) / (1 / 1000)) ^ 2)))
       else
         error_contributions_loop items outs
           (dict_set ret_val target_name
              (sqrt (((target_value - other_value) / target_value) ^ 2))))"

definition evaluate_individual_error_contributions ::
  "GeneticCalibration \<Rightarrow> py_error + real dict" where
  "evaluate_individual_error_contributions self =
     (case outcomes self of
        None \<Rightarrow> Inl (ValueError Outcomes_not_set)
      | Some outs \<Rightarrow>
          if set (keys (targets self)) \<noteq> set (keys outs) then Inl NameError
          else error_contributions_loop (targets self) outs [])"

text \<open>
  \<^verbatim>\<open>GeneticCalibration.breed\<close>. The message of the second \<^verbatim>\<open>raise\<close> reads the attribute
  \<^verbatim>\<open>param_index_dic\<close>, which the group does not have: the statement raises
  \<^verbatim>\<open>AttributeError\<close>.
\<close>

definition calibration_breed ::
  "GeneticCalibration \<Rightarrow> GeneticCalibration \<Rightarrow> rng \<Rightarrow> py_error + (GeneticCalibration \<times> rng)" where
  "calibration_breed self other_genetic_calibration g =
     (if length (param_list (param_group self)) \<noteq>
           length (param_list (param_group other_genetic_calibration)) then
        Inl (ValueError Breed_different_list_sizes)
      else if set (keys (param_index_dict (param_group self))) \<noteq>
                set (keys (param_index_dict (param_group other_genetic_calibration))) then
        Inl AttributeError
      else
        bind (group_breed (param_group self) (param_group other_genetic_calibration) g)
          (\<lambda>(new_group, g').
             Inr (GeneticCalibration_init
                    \<lparr>param_group := new_group, targets := targets self,
                     threshold := threshold self,
                     target_to_parameters_weights := target_to_parameters_weights self\<rparr>, g')))"

text \<open>\<^verbatim>\<open>GeneticCalibration.gradient_update_to_target\<close>\<close>

definition gradient_update_to_target :: "GeneticCalibration \<Rightarrow> py_error + GeneticCalibration" where
  "gradient_update_to_target self =
     (case outcomes self of
        None \<Rightarrow> Inl AttributeError
      | Some outs \<Rightarrow>
          bind (group_gradient_update_to_target (param_group self) outs (targets self)
                  (target_to_parameters_weights self)) (\<lambda>new_group.
            Inr (GeneticCalibration_init
                   \<lparr>param_group := new_group, targets := targets self,
                    threshold := threshold self,
                    target_to_parameters_weights := target_to_parameters_weights self\<rparr>)))"

subsection \<open>\<^verbatim>\<open>calibrate_opiod_params.py\<close>: the two generation updates\<close>

text \<open>
  \<^verbatim>\<open>list.sort()\<close> compares with \<^verbatim>\<open>__lt__\<close>, that is by \<^verbatim>\<open>evaluated_error\<close>, and is stable,
  as \<^const>\<open>sort_key\<close> is.
\<close>

definition sort_calibrations :: "GeneticCalibration list \<Rightarrow> GeneticCalibration list" where
  "sort_calibrations genetic_calibrations = sort_key evaluated_error genetic_calibrations"

text \<open>\<^verbatim>\<open>_perform_genetic_mixing\<close>\<close>

definition perform_genetic_mixing ::
  "GeneticCalibration list \<Rightarrow> rng \<Rightarrow> py_error + (GeneticCalibration list \<times> rng)" where
  "perform_genetic_mixing genetic_calibrations g =
     (if \<not> length genetic_calibrations = 10 then Inl (IndexError List_not_exactly_ten_items)
      else
        (let s = sort_calibrations genetic_calibrations in
         bind (calibration_breed (s ! 0) (s ! 1) g) (\<lambda>(c1, g1).
         bind (calibration_breed (s ! 0) (s ! 2) g1) (\<lambda>(c2, g2).
         bind (calibration_breed (s ! 0) (s ! 3) g2) (\<lambda>(c3, g3).
         bind (calibration_breed (s ! 1) (s ! 2) g3) (\<lambda>(c4, g4).
         bind (calibration_breed (s ! 1) (s ! 3) g4) (\<lambda>(c5, g5).
         bind (calibration_breed (s ! 1) (s ! 4) g5) (\<lambda>(c6, g6).
         bind (calibration_breed (s ! 2) (s ! 3) g6) (\<lambda>(c7, g7).
         bind (calibration_breed (s ! 2) (s ! 4) g7) (\<lambda>(c8, g8).
         bind (calibration_breed (s ! 3) (s ! 4) g8) (\<lambda>(c9, g9).
         Inr ([s ! 0, c1, c2, c3, c4, c5, c6, c7, c8, c9], g9))))))))))))"

text \<open>\<^verbatim>\<open>_perform_weighted_parameter_adjustments\<close>\<close>

definition perform_weighted_parameter_adjustments ::
  "GeneticCalibration list \<Rightarrow> py_error + GeneticCalibration list" where
  "perform_weighted_parameter_adjustments genetic_calibrations =
     (if \<not> length genetic_calibrations = 10 then Inl (IndexError List_not_exactly_ten_items)
      else
        (let s = sort_calibrations genetic_calibrations in
         bind (gradient_update_to_target (s ! 0)) (\<lambda>u0.
         bind (gradient_update_to_target (s ! 1)) (\<lambda>u1.
         bind (gradient_update_to_target (s ! 2)) (\<lambda>u2.
         bind (gradient_update_to_target (s ! 3)) (\<lambda>u3.
         bind (gradient_update_to_target (s ! 4)) (\<lambda>u4.
         bind (gradient_update_to_target (s ! 5)) (\<lambda>u5.
         bind (gradient_update_to_target (s ! 6)) (\<lambda>u6.
         bind (gradient_update_to_target (s ! 7)) (\<lambda>u7.
         Inr [s ! 0, s ! 1, u0, u1, u2, u3, u4, u5, u6, u7]))))))))))"

section \<open>Notions of the specification\<close>

subsection \<open>The relative error of a metric\<close>

text \<open>
  The term that the specification sums in the error of a candidate: the difference
  between target and outcome over the target, or over \<open>0.001\<close> when the target is zero.
\<close>

definition relative_error :: "real \<Rightarrow> real \<Rightarrow> real" where
  "relative_error target outcome =
     (if target = 0 then (target - outcome) / (1 / 1000) else (target - outcome) / target)"

subsection \<open>Applying an operation to candidates in order\<close>

text \<open>
  The two generation updates are written out call by call in the source. To state what
  they compute, \<open>update_each\<close> applies the gradient update to the candidates of a list in
  order, and \<open>breed_each\<close> breeds the candidates at the given index pairs in order, handing
  the random generator from one call to the next; both stop at the first exception.
  \<open>mixing_pairs\<close> are the index pairs of the specification.
\<close>

fun update_each :: "GeneticCalibration list \<Rightarrow> py_error + GeneticCalibration list" where
  "update_each [] = Inr []"
| "update_each (c # cs) =
     bind (gradient_update_to_target c) (\<lambda>u.
     bind (update_each cs) (\<lambda>us. Inr (u # us)))"

fun breed_each ::
  "GeneticCalibration list \<Rightarrow> (nat \<times> nat) list \<Rightarrow> rng
     \<Rightarrow> py_error + (GeneticCalibration list \<times> rng)" where
  "breed_each s [] g = Inr ([], g)"
| "breed_each s ((i, j) # ps) g =
     bind (calibration_breed (s ! i) (s ! j) g) (\<lambda>(c, g').
     bind (breed_each s ps g') (\<lambda>(cs, g''). Inr (c # cs, g'')))"

definition mixing_pairs :: "(nat \<times> nat) list" where
  "mixing_pairs = [(0, 1), (0, 2), (0, 3), (1, 2), (1, 3), (1, 4), (2, 3), (2, 4), (3, 4)]"

section \<open>Concrete inputs\<close>

text \<open>Parameters, groups and candidates on which the theorems below are evaluated.\<close>

definition par_lo :: BreedableParameter where
  "par_lo = \<lparr>name = ''x'', val = 0, min_val = 0, max_val = 1, mutation_prob = 1 / 5\<rparr>"

definition par_hi :: BreedableParameter where
  "par_hi = \<lparr>name = ''x'', val = 1, min_val = 0, max_val = 1, mutation_prob = 1 / 5\<rparr>"

definition par_a :: BreedableParameter where
  "par_a = \<lparr>name = ''x'', val = 1 / 4, min_val = 0, max_val = 1, mutation_prob = 0\<rparr>"

definition par_b :: BreedableParameter where
  "par_b = \<lparr>name = ''x'', val = 3 / 4, min_val = 0, max_val = 1, mutation_prob = 0\<rparr>"

definition par_y :: BreedableParameter where
  "par_y = \<lparr>name = ''y'', val = 3 / 4, min_val = 0, max_val = 1, mutation_prob = 0\<rparr>"

definition group_x :: BreedableParameterGoup where
  "group_x = \<lparr>param_list = [par_a], param_index_dict = [(''x'', 0)]\<rparr>"

definition cand_ab :: GeneticCalibration where
  "cand_ab = GeneticCalibration_init\<lparr>targets := [(''a'', 100), (''b'', 0)]\<rparr>"

definition group_xy :: BreedableParameterGoup where
  "group_xy = \<lparr>param_list = [par_a, par_y], param_index_dict = [(''x'', 0), (''y'', 1)]\<rparr>"

definition par_x :: "real \<Rightarrow> BreedableParameter" where
  "par_x v = \<lparr>name = ''x'', val = v, min_val = 0, max_val = 1, mutation_prob = 1 / 5\<rparr>"

definition fresh :: "real \<Rightarrow> GeneticCalibration" where
  "fresh v =
     GeneticCalibration_init
       \<lparr>param_group := \<lparr>param_list = [par_x v], param_index_dict = [(''x'', 0)]\<rparr>,
        targets := [(''m'', 1)]\<rparr>"

definition cand :: "real \<Rightarrow> real \<Rightarrow> GeneticCalibration" where
  "cand v e = (fresh v)\<lparr>outcomes := Some [(''m'', 1 + e)], evaluated_error := e\<rparr>"

definition pop10 :: "GeneticCalibration list" where
  "pop10 =
     [cand (3 / 10) 3, cand (1 / 10) 1, cand 0 0, cand (2 / 10) 2, cand (4 / 10) 4,
      cand (5 / 10) 5, cand (6 / 10) 6, cand (7 / 10) 7, cand (8 / 10) 8, cand (9 / 10) 9]"

definition bare :: "real \<Rightarrow> GeneticCalibration" where
  "bare e =
     GeneticCalibration_init
       \<lparr>targets := [(''m'', 1)], outcomes := Some [(''m'', 1 + e)], evaluated_error := e\<rparr>"

definition pop_mismatch :: "GeneticCalibration list" where
  "pop_mismatch =
     [cand 0 0, bare 1, cand (2 / 10) 2, cand (3 / 10) 3, cand (4 / 10) 4,
      cand (5 / 10) 5, cand (6 / 10) 6, cand (7 / 10) 7, cand (8 / 10) 8, cand (9 / 10) 9]"

section \<open>Properties\<close>

subsection \<open>Constructors and random draws\<close>

lemma init_ok:
  "lo \<le> v \<Longrightarrow> v \<le> hi \<Longrightarrow> lo < hi \<Longrightarrow> 0 \<le> mp \<Longrightarrow> mp \<le> 1 \<Longrightarrow>
   BreedableParameter_init n v lo hi mp =
     Inr \<lparr>name = n, val = v, min_val = lo, max_val = hi, mutation_prob = mp\<rparr>"
  by (simp add: BreedableParameter_init_def Parameter_init_def bind_def)

lemma init_Inr:
  "BreedableParameter_init n v lo hi mp = Inr p \<Longrightarrow>
   p = \<lparr>name = n, val = v, min_val = lo, max_val = hi, mutation_prob = mp\<rparr> \<and>
   lo \<le> v \<and> v \<le> hi \<and> lo < hi \<and> 0 \<le> mp \<and> mp \<le> 1"
  by (auto simp add: BreedableParameter_init_def Parameter_init_def bind_def split: if_splits)

lemma init_self:
  "well_formed p \<Longrightarrow> min_val p \<le> v \<Longrightarrow> v \<le> max_val p \<Longrightarrow>
   BreedableParameter_init (name p) v (min_val p) (max_val p) (mutation_prob p) =
     Inr (p\<lparr>val := v\<rparr>)"
  by (simp add: well_formed_def init_ok)

lemma uniform_bounds:
  assumes "unit_draws g" and "a \<le> b"
  shows "a \<le> fst (uniform a b g)" and "fst (uniform a b g) \<le> b"
proof -
  have u: "0 \<le> g 0" "g 0 < 1" using assms(1) by (simp_all add: unit_draws_def)
  have "0 \<le> (b - a) * g 0" using u assms(2) by simp
  then show "a \<le> fst (uniform a b g)" by (simp add: uniform_def random_def)
  have "(b - a) * g 0 \<le> (b - a) * 1"
    using u assms(2) by (intro mult_left_mono) simp_all
  then show "fst (uniform a b g) \<le> b" by (simp add: uniform_def random_def)
qed

lemma uniform_onto:
  assumes "a \<le> v" and "v < b"
  shows "unit_draws (\<lambda>n. (v - a) / (b - a)) \<and>
         fst (uniform a b (\<lambda>n. (v - a) / (b - a))) = v"
  using assms by (simp add: unit_draws_def uniform_def random_def)

lemma unit_draws_snd: "unit_draws g \<Longrightarrow> unit_draws (snd (uniform a b g))"
  by (simp add: unit_draws_def uniform_def random_def)

lemma generate_random_full:
  assumes "well_formed p" and "unit_draws g"
  shows "generate_random (name p) (min_val p) (max_val p) (min_val p) (max_val p)
           (mutation_prob p) g =
         Inr (p\<lparr>val := fst (uniform (min_val p) (max_val p) g)\<rparr>,
              snd (uniform (min_val p) (max_val p) g))"
proof -
  have le: "min_val p \<le> max_val p" using assms(1) by (simp add: well_formed_def)
  show ?thesis
    using uniform_bounds [OF assms(2) le]
      init_self [OF assms(1), of "fst (uniform (min_val p) (max_val p) g)"]
    by (simp add: generate_random_def bind_def case_prod_beta)
qed

lemma breed_equal:
  assumes "well_formed self" and "unit_draws g"
    and "name self = name other_param" and "val self = val other_param"
  shows "breed self other_param g =
         Inr (self\<lparr>val := fst (uniform (min_val self) (max_val self) g)\<rparr>,
              snd (uniform (min_val self) (max_val self) g))"
  using assms generate_random_full [of self g] by (simp add: breed_def)

lemma breed_no_mutation:
  assumes "unit_draws g" and "name self = name other_param"
    and "val self \<noteq> val other_param" and "mutation_prob self = 0"
  shows "breed self other_param g =
           bind (BreedableParameter_init (name self)
                   (fst (uniform (min (val self) (val other_param))
                           (max (val self) (val other_param)) (snd (uniform 0 1 g))))
                   (min_val self) (max_val self) (mutation_prob self))
             (\<lambda>p. Inr (p, snd (uniform 0 1 (snd (uniform 0 1 g)))))"
proof -
  have "\<not> fst (uniform 0 1 g) < 0"
    using assms(1) by (simp add: uniform_def random_def unit_draws_def not_less)
  then show ?thesis
    using assms(2-4)
    by (auto simp add: breed_def min_def max_def uniform_def random_def split: prod.splits)
qed

lemma breed_preserves:
  assumes "breed self other_param g = Inr (p, g')"
  shows "name p = name self \<and> min_val p = min_val self \<and> max_val p = max_val self \<and>
         mutation_prob p = mutation_prob self \<and> well_formed p"
  using assms
  by (auto simp add: breed_def generate_random_def bind_def Let_def well_formed_def
      split: if_splits prod.splits sum.splits dest!: init_Inr)

subsection \<open>Every parameter a method returns has passed the constructor\<close>









subsection \<open>Dictionary updates\<close>

lemma keys_dict_set: "set (keys (dict_set d k v)) = insert k (set (keys d))"
  by (induction d k v rule: dict_set.induct) (auto simp add: keys_def)

lemma dict_set_new: "k \<notin> set (keys d) \<Longrightarrow> dict_set d k v = d @ [(k, v)]"
  by (induction d k v rule: dict_set.induct) (auto simp add: keys_def)

subsection \<open>The generation updates as operations in order\<close>

lemma list_of_length_10:
  "length xs = 10 \<Longrightarrow> \<exists>a0 a1 a2 a3 a4 a5 a6 a7 a8 a9. xs = [a0, a1, a2, a3, a4, a5, a6, a7, a8, a9]"
  by (auto simp add: eval_nat_numeral length_Suc_conv)

lemma update_each_Inr:
  "update_each cs = Inr us \<longleftrightarrow>
     length us = length cs \<and> (\<forall>k<length cs. gradient_update_to_target (cs ! k) = Inr (us ! k))"
proof (induction cs arbitrary: us)
  case Nil
  then show ?case by auto
next
  case (Cons c cs)
  show ?case
  proof (cases "gradient_update_to_target c")
    case (Inl e)
    then show ?thesis by (auto simp add: bind_def)
  next
    case (Inr u)
    show ?thesis
    proof (cases "update_each cs")
      case (Inl e)
      with Cons.IH have no: "\<And>us'. \<not> (length us' = length cs \<and>
          (\<forall>k<length cs. gradient_update_to_target (cs ! k) = Inr (us' ! k)))" by simp
      have "\<not> (length us = length (c # cs) \<and>
          (\<forall>k<length (c # cs). gradient_update_to_target ((c # cs) ! k) = Inr (us ! k)))"
      proof
        assume a: "length us = length (c # cs) \<and>
          (\<forall>k<length (c # cs). gradient_update_to_target ((c # cs) ! k) = Inr (us ! k))"
        then obtain u' us' where us: "us = u' # us'" by (cases us) auto
        from a us have "length us' = length cs \<and>
          (\<forall>k<length cs. gradient_update_to_target (cs ! k) = Inr (us' ! k))" by auto
        with no show False by blast
      qed
      with Inl Inr show ?thesis by (simp add: bind_def)
    next
      case r: (Inr us')
      with Cons.IH [of us'] have ih: "length us' = length cs"
        "\<forall>k<length cs. gradient_update_to_target (cs ! k) = Inr (us' ! k)" by simp_all
      show ?thesis
      proof
        assume "update_each (c # cs) = Inr us"
        with Inr r have "us = u # us'" by (simp add: bind_def)
        with ih Inr show "length us = length (c # cs) \<and>
          (\<forall>k<length (c # cs). gradient_update_to_target ((c # cs) ! k) = Inr (us ! k))"
          by (auto simp add: nth_Cons split: nat.splits)
      next
        assume a: "length us = length (c # cs) \<and>
          (\<forall>k<length (c # cs). gradient_update_to_target ((c # cs) ! k) = Inr (us ! k))"
        then obtain u' us'' where us: "us = u' # us''" by (cases us) auto
        from a us have "gradient_update_to_target c = Inr u'" by auto
        with Inr have u': "u' = u" by simp
        from a us have "length us'' = length cs \<and>
          (\<forall>k<length cs. gradient_update_to_target (cs ! k) = Inr (us'' ! k))" by auto
        with Cons.IH [of us''] r have "us'' = us'" by simp
        with us u' Inr r show "update_each (c # cs) = Inr us" by (simp add: bind_def)
      qed
    qed
  qed
qed

lemma update_each_Inl:
  "update_each cs = Inl e \<Longrightarrow> \<exists>k<length cs. gradient_update_to_target (cs ! k) = Inl e"
proof (induction cs)
  case Nil
  then show ?case by simp
next
  case (Cons c cs)
  show ?case
  proof (cases "gradient_update_to_target c")
    case (Inl e')
    with Cons.prems have "e' = e" by (simp add: bind_def)
    with Inl show ?thesis by auto
  next
    case (Inr u)
    with Cons.prems have "update_each cs = Inl e"
      by (auto simp add: bind_def split: sum.splits)
    from Cons.IH [OF this] obtain k where "k < length cs"
      "gradient_update_to_target (cs ! k) = Inl e" by blast
    then have "Suc k < length (c # cs) \<and> gradient_update_to_target ((c # cs) ! Suc k) = Inl e"
      by simp
    then show ?thesis by blast
  qed
qed

lemma perform_weighted_as_update_each:
  assumes "length gcs = 10"
  shows "perform_weighted_parameter_adjustments gcs =
           bind (update_each (take 8 (sort_calibrations gcs)))
             (\<lambda>us. Inr (sort_calibrations gcs ! 0 # sort_calibrations gcs ! 1 # us))"
proof -
  have "length (sort_calibrations gcs) = 10"
    using assms by (simp add: sort_calibrations_def)
  from list_of_length_10 [OF this] obtain a0 a1 a2 a3 a4 a5 a6 a7 a8 a9
    where s: "sort_calibrations gcs = [a0, a1, a2, a3, a4, a5, a6, a7, a8, a9]" by blast
  show ?thesis
    unfolding perform_weighted_parameter_adjustments_def s Let_def
    using assms by (simp add: bind_def split: sum.splits)
qed

lemma breed_each_Inr:
  "breed_each s ps g = Inr (cs, g') \<Longrightarrow>
   length cs = length ps \<and>
   (\<exists>gs. gs 0 = g \<and> gs (length ps) = g' \<and>
      (\<forall>k<length ps.
         calibration_breed (s ! fst (ps ! k)) (s ! snd (ps ! k)) (gs k) = Inr (cs ! k, gs (Suc k))))"
proof (induction ps arbitrary: g cs)
  case Nil
  then show ?case by auto
next
  case (Cons p ps)
  obtain i j where p: "p = (i, j)" by (cases p)
  from Cons.prems p obtain c g1 cs' where
    b: "calibration_breed (s ! i) (s ! j) g = Inr (c, g1)"
    and r: "breed_each s ps g1 = Inr (cs', g')" and cs: "cs = c # cs'"
    by (auto simp add: bind_def split: sum.splits prod.splits)
  from Cons.IH [OF r] obtain gs where len: "length cs' = length ps"
    and gs: "gs 0 = g1" "gs (length ps) = g'"
      "\<forall>k<length ps. calibration_breed (s ! fst (ps ! k)) (s ! snd (ps ! k)) (gs k) =
          Inr (cs' ! k, gs (Suc k))"
    by blast
  let ?gs = "\<lambda>k. case k of 0 \<Rightarrow> g | Suc n \<Rightarrow> gs n"
  have "\<forall>k<length (p # ps).
         calibration_breed (s ! fst ((p # ps) ! k)) (s ! snd ((p # ps) ! k)) (?gs k) =
           Inr (cs ! k, ?gs (Suc k))"
  proof (intro allI impI)
    fix k assume k: "k < length (p # ps)"
    show "calibration_breed (s ! fst ((p # ps) ! k)) (s ! snd ((p # ps) ! k)) (?gs k) =
           Inr (cs ! k, ?gs (Suc k))"
    proof (cases k)
      case 0
      with b p cs gs(1) show ?thesis by simp
    next
      case (Suc n)
      with k gs(3) cs show ?thesis by simp
    qed
  qed
  moreover have "?gs 0 = g" "?gs (length (p # ps)) = g'" using gs(2) by simp_all
  moreover have "length cs = length (p # ps)" using len cs by simp
  ultimately show ?case by blast
qed

lemma breed_each_returns:
  "(\<forall>k<length ps.
      calibration_breed (s ! fst (ps ! k)) (s ! snd (ps ! k)) (gs k) = Inr (cs k, gs (Suc k))) \<Longrightarrow>
   breed_each s ps (gs 0) = Inr (map cs [0..<length ps], gs (length ps))"
proof (induction ps arbitrary: gs cs)
  case Nil
  then show ?case by simp
next
  case (Cons p ps)
  obtain i j where p: "p = (i, j)" by (cases p)
  from Cons.prems [rule_format, of 0] p
  have b: "calibration_breed (s ! i) (s ! j) (gs 0) = Inr (cs 0, gs (Suc 0))" by simp
  have "\<forall>k<length ps.
      calibration_breed (s ! fst (ps ! k)) (s ! snd (ps ! k)) ((gs \<circ> Suc) k) =
        Inr ((cs \<circ> Suc) k, (gs \<circ> Suc) (Suc k))"
    using Cons.prems by auto
  from Cons.IH [OF this]
  have r: "breed_each s ps (gs (Suc 0)) = Inr (map (cs \<circ> Suc) [0..<length ps], gs (Suc (length ps)))"
    by simp
  have m: "map cs [0..<length (p # ps)] = cs 0 # map (cs \<circ> Suc) [0..<length ps]"
    by (simp add: upt_rec [of 0] map_Suc_upt [symmetric] del: upt_Suc)
  show ?case unfolding m using b r p by (simp add: bind_def)
qed

lemma breed_each_Inl:
  "breed_each s ps g = Inl e \<Longrightarrow>
   \<exists>k<length ps. \<exists>gk. calibration_breed (s ! fst (ps ! k)) (s ! snd (ps ! k)) gk = Inl e"
proof (induction ps arbitrary: g)
  case Nil
  then show ?case by simp
next
  case (Cons p ps)
  obtain i j where p: "p = (i, j)" by (cases p)
  show ?case
  proof (cases "calibration_breed (s ! i) (s ! j) g")
    case (Inl e')
    with Cons.prems p have "e' = e" by (simp add: bind_def)
    with Inl p have "calibration_breed (s ! fst ((p # ps) ! 0)) (s ! snd ((p # ps) ! 0)) g = Inl e"
      by simp
    then show ?thesis by blast
  next
    case (Inr cg)
    obtain c g1 where cg: "cg = (c, g1)" by (cases cg)
    with Inr Cons.prems p have "breed_each s ps g1 = Inl e"
      by (auto simp add: bind_def split: sum.splits prod.splits)
    from Cons.IH [OF this] obtain k gk where "k < length ps"
      "calibration_breed (s ! fst (ps ! k)) (s ! snd (ps ! k)) gk = Inl e" by blast
    then have "Suc k < length (p # ps) \<and>
      calibration_breed (s ! fst ((p # ps) ! Suc k)) (s ! snd ((p # ps) ! Suc k)) gk = Inl e"
      by simp
    then show ?thesis by blast
  qed
qed

lemma perform_genetic_mixing_as_breed_each:
  assumes "length gcs = 10"
  shows "perform_genetic_mixing gcs g =
           bind (breed_each (sort_calibrations gcs) mixing_pairs g)
             (\<lambda>(cs, g'). Inr (sort_calibrations gcs ! 0 # cs, g'))"
  using assms
  by (simp add: perform_genetic_mixing_def mixing_pairs_def Let_def bind_def
      split: sum.splits prod.splits)

subsection \<open>The example population\<close>

lemma evaluate_fresh: "0 \<le> e \<Longrightarrow> evaluate (fresh v) [(''m'', 1 + e)] = Inr (cand v e)"
  by (simp add: evaluate_def fresh_def cand_def GeneticCalibration_init_def keys_def bind_def
      dict_get_def)

lemma evaluated_error_cand: "evaluated_error (cand v e) = e"
  by (simp add: cand_def)

lemma sort_pop10:
  "sort_calibrations pop10 =
     [cand 0 0, cand (1 / 10) 1, cand (2 / 10) 2, cand (3 / 10) 3, cand (4 / 10) 4,
      cand (5 / 10) 5, cand (6 / 10) 6, cand (7 / 10) 7, cand (8 / 10) 8, cand (9 / 10) 9]"
  by (simp add: sort_calibrations_def pop10_def evaluated_error_cand)

lemma gradient_update_cand:
  "0 \<le> v \<Longrightarrow> v \<le> 1 \<Longrightarrow> gradient_update_to_target (cand v e) = Inr (fresh v)"
  by (simp add: gradient_update_to_target_def cand_def fresh_def GeneticCalibration_init_def
      group_gradient_update_to_target_def bind_def dict_get_def list_get_def clone_def par_x_def
      init_ok group_append_def keys_def BreedableParameterGoup_init_def)

lemma fresh_inject: "fresh v = fresh w \<longleftrightarrow> v = w"
  by (auto simp add: fresh_def par_x_def GeneticCalibration_init_def)

lemma perform_weighted_pop10:
  "perform_weighted_parameter_adjustments pop10 =
     Inr [cand 0 0, cand (1 / 10) 1, fresh 0, fresh (1 / 10), fresh (2 / 10), fresh (3 / 10),
          fresh (4 / 10), fresh (5 / 10), fresh (6 / 10), fresh (7 / 10)]"
  by (simp add: perform_weighted_parameter_adjustments_def sort_pop10 gradient_update_cand
      bind_def) (simp add: pop10_def)

lemma calibration_breed_cand:
  assumes "0 \<le> v" and "v < w" and "w \<le> 1"
  shows "calibration_breed (cand v e) (cand w e') (\<lambda>n. 1 / 2) =
           Inr (fresh ((v + w) / 2), \<lambda>n. 1 / 2)"
proof -
  have b: "breed (par_x v) (par_x w) (\<lambda>n. 1 / 2) = Inr (par_x ((v + w) / 2), \<lambda>n. 1 / 2)"
    using assms
    by (simp add: breed_def par_x_def uniform_def random_def init_ok bind_def field_simps)
  show ?thesis
    by (simp add: calibration_breed_def group_breed_def cand_def fresh_def
        GeneticCalibration_init_def keys_def bind_def dict_get_def list_get_def b
        group_append_def BreedableParameterGoup_init_def)
      (simp add: par_x_def)
qed

lemma perform_genetic_mixing_pop10:
  "perform_genetic_mixing pop10 (\<lambda>n. 1 / 2) =
     Inr ([cand 0 0, fresh (1 / 20), fresh (2 / 20), fresh (3 / 20), fresh (3 / 20),
           fresh (4 / 20), fresh (5 / 20), fresh (5 / 20), fresh (6 / 20), fresh (7 / 20)],
          \<lambda>n. 1 / 2)"
  by (simp add: perform_genetic_mixing_def sort_pop10 calibration_breed_cand bind_def)
    (simp add: pop10_def)

subsection \<open>Breeding a parameter\<close>

text \<open>
  Claim C9. \<^verbatim>\<open>breed\<close> is not total on same-named parents with different values: when
  \<^verbatim>\<open>self\<close> sits on its lower bound and the other parent on \<^verbatim>\<open>self\<close>'s upper bound, the
  two zones outside the parents have the combined width
  \<open>(val self - min_val self) + (max_val self - val other_param) = 0\<close>, and as soon as the
  mutation branch is taken (the first draw is below the positive mutation probability)
  the quotient by that width raises \<^verbatim>\<open>ZeroDivisionError\<close>.
\<close>

theorem breed_raises_ZeroDivisionError:
  assumes "well_formed self" and "well_formed other_param"
    and "name self = name other_param"
    and "val self = min_val self" and "val other_param = max_val self"
    and "unit_draws g" and "g 0 < mutation_prob self"
  shows "val self \<noteq> val other_param \<and>
         (val self - min_val self) + (max_val self - val other_param) = 0 \<and>
         breed self other_param g = Inl ZeroDivisionError"
  using assms
  by (auto simp add: breed_def well_formed_def uniform_def random_def Let_def
      split: prod.splits)

theorem breed_raises_ZeroDivisionError_witness:
  "BreedableParameter_init ''x'' 0 0 1 (1 / 5) = Inr par_lo \<and>
   BreedableParameter_init ''x'' 1 0 1 (1 / 5) = Inr par_hi \<and>
   unit_draws (\<lambda>n. 0) \<and> 0 < mutation_prob par_lo \<and>
   breed par_lo par_hi (\<lambda>n. 0) = Inl ZeroDivisionError"
  using breed_raises_ZeroDivisionError [of par_lo par_hi "\<lambda>n. 0"]
  by (simp add: par_lo_def par_hi_def well_formed_def unit_draws_def init_ok)

text \<open>
  Claim C4. For a well-formed \<^verbatim>\<open>self\<close> and draws from the unit interval:
  parents with different names raise the name-mismatch \<^verbatim>\<open>ValueError\<close>; parents with
  equal values give \<^verbatim>\<open>self\<close> with its value replaced by \<^verbatim>\<open>random.uniform(min_val, max_val)\<close>,
  the uniform draw over the whole legal range, and every value of \<open>[min_val, max_val)\<close>
  is the result for some draw; parents with different values and mutation probability
  \<open>0\<close> give a value between the two parents' values whenever \<^verbatim>\<open>breed\<close> returns, and it
  returns when the other parent's value lies in \<^verbatim>\<open>self\<close>'s range; whatever \<^verbatim>\<open>breed\<close>
  returns has the name, bounds and mutation probability of \<^verbatim>\<open>self\<close>.
\<close>

theorem breed_contract:
  assumes "well_formed self" and "unit_draws g"
  shows
    "(name self \<noteq> name other_param \<longrightarrow>
        breed self other_param g = Inl (ValueError Breed_different_names)) \<and>
     (name self = name other_param \<and> val self = val other_param \<longrightarrow>
        breed self other_param g =
          Inr (self\<lparr>val := fst (uniform (min_val self) (max_val self) g)\<rparr>,
               snd (uniform (min_val self) (max_val self) g)) \<and>
        (\<forall>v. min_val self \<le> v \<and> v < max_val self \<longrightarrow>
           (\<exists>g0 g1. unit_draws g0 \<and>
              breed self other_param g0 = Inr (self\<lparr>val := v\<rparr>, g1)))) \<and>
     (name self = name other_param \<and> val self \<noteq> val other_param \<and>
      mutation_prob self = 0 \<longrightarrow>
        (\<forall>p g'. breed self other_param g = Inr (p, g') \<longrightarrow>
           min (val self) (val other_param) \<le> val p \<and>
           val p \<le> max (val self) (val other_param)) \<and>
        (min_val self \<le> val other_param \<and> val other_param \<le> max_val self \<longrightarrow>
           (\<exists>p g'. breed self other_param g = Inr (p, g')))) \<and>
     (\<forall>p g'. breed self other_param g = Inr (p, g') \<longrightarrow>
        name p = name self \<and> min_val p = min_val self \<and> max_val p = max_val self \<and>
        mutation_prob p = mutation_prob self)"
proof (intro conjI impI allI)
  assume "name self \<noteq> name other_param"
  then show "breed self other_param g = Inl (ValueError Breed_different_names)"
    by (simp add: breed_def)
next
  assume eq: "name self = name other_param \<and> val self = val other_param"
  then show "breed self other_param g =
          Inr (self\<lparr>val := fst (uniform (min_val self) (max_val self) g)\<rparr>,
               snd (uniform (min_val self) (max_val self) g))"
    using breed_equal [OF assms] by simp
next
  fix v
  assume eq: "name self = name other_param \<and> val self = val other_param"
    and v: "min_val self \<le> v \<and> v < max_val self"
  let ?g0 = "\<lambda>n::nat. (v - min_val self) / (max_val self - min_val self)"
  have on: "unit_draws ?g0" "fst (uniform (min_val self) (max_val self) ?g0) = v"
    using uniform_onto [of "min_val self" v "max_val self"] v by simp_all
  have "breed self other_param ?g0 =
          Inr (self\<lparr>val := v\<rparr>, snd (uniform (min_val self) (max_val self) ?g0))"
    using breed_equal [OF assms(1) on(1), of other_param] eq on(2) by simp
  with on(1)
  show "\<exists>g0 g1. unit_draws g0 \<and> breed self other_param g0 = Inr (self\<lparr>val := v\<rparr>, g1)"
    by blast
next
  fix p g'
  assume d: "name self = name other_param \<and> val self \<noteq> val other_param \<and>
             mutation_prob self = 0"
    and r: "breed self other_param g = Inr (p, g')"
  let ?v = "fst (uniform (min (val self) (val other_param))
                   (max (val self) (val other_param)) (snd (uniform 0 1 g)))"
  have "val p = ?v"
    using r d breed_no_mutation [OF assms(2), of self other_param]
    by (auto simp add: bind_def split: sum.splits dest!: init_Inr)
  moreover
  have "min (val self) (val other_param) \<le> ?v" "?v \<le> max (val self) (val other_param)"
    using uniform_bounds [OF unit_draws_snd [OF assms(2)],
        of "min (val self) (val other_param)" "max (val self) (val other_param)" 0 1]
    by simp_all
  ultimately
  show "min (val self) (val other_param) \<le> val p"
    and "val p \<le> max (val self) (val other_param)"
    by simp_all
next
  assume d: "name self = name other_param \<and> val self \<noteq> val other_param \<and>
             mutation_prob self = 0"
    and o: "min_val self \<le> val other_param \<and> val other_param \<le> max_val self"
  let ?v = "fst (uniform (min (val self) (val other_param))
                   (max (val self) (val other_param)) (snd (uniform 0 1 g)))"
  have b: "min (val self) (val other_param) \<le> ?v" "?v \<le> max (val self) (val other_param)"
    using uniform_bounds [OF unit_draws_snd [OF assms(2)],
        of "min (val self) (val other_param)" "max (val self) (val other_param)" 0 1]
    by simp_all
  have "min_val self \<le> ?v" "?v \<le> max_val self"
    using b o assms(1) by (auto simp add: well_formed_def)
  then show "\<exists>p g'. breed self other_param g = Inr (p, g')"
    using d breed_no_mutation [OF assms(2), of self other_param]
      init_self [OF assms(1), of ?v]
    by (simp add: bind_def)
next
  fix p g'
  assume "breed self other_param g = Inr (p, g')"
  then show "name p = name self" "min_val p = min_val self" "max_val p = max_val self"
    "mutation_prob p = mutation_prob self"
    using breed_preserves by blast+
qed

theorem breed_contract_witness:
  "well_formed par_a \<and> unit_draws (\<lambda>n. 1 / 2) \<and>
   breed par_a par_y (\<lambda>n. 1 / 2) = Inl (ValueError Breed_different_names) \<and>
   breed par_a par_a (\<lambda>n. 1 / 2) = Inr (par_a\<lparr>val := 1 / 2\<rparr>, \<lambda>n. 1 / 2) \<and>
   (\<exists>p g'. breed par_a par_b (\<lambda>n. 1 / 2) = Inr (p, g') \<and> 1 / 4 \<le> val p \<and> val p \<le> 3 / 4)"
proof -
  have wf: "well_formed par_a" by (simp add: par_a_def well_formed_def)
  have ud: "unit_draws (\<lambda>n. 1 / 2)" by (simp add: unit_draws_def)
  have 1: "breed par_a par_y (\<lambda>n. 1 / 2) = Inl (ValueError Breed_different_names)"
    using breed_contract [OF wf ud, of par_y, THEN conjunct1]
    by (simp add: par_a_def par_y_def)
  have 2: "breed par_a par_a (\<lambda>n. 1 / 2) = Inr (par_a\<lparr>val := 1 / 2\<rparr>, \<lambda>n. 1 / 2)"
    using breed_contract [OF wf ud, of par_a, THEN conjunct2, THEN conjunct1, THEN mp,
        THEN conjunct1]
    by (simp add: par_a_def uniform_def random_def)
  note c = breed_contract [OF wf ud, of par_b, THEN conjunct2, THEN conjunct2,
      THEN conjunct1, THEN mp]
  have pre: "name par_a = name par_b \<and> val par_a \<noteq> val par_b \<and> mutation_prob par_a = 0"
    by (simp add: par_a_def par_b_def)
  have "\<exists>p g'. breed par_a par_b (\<lambda>n. 1 / 2) = Inr (p, g')"
    using c [OF pre, THEN conjunct2] by (simp add: par_a_def par_b_def)
  then obtain p g' where r: "breed par_a par_b (\<lambda>n. 1 / 2) = Inr (p, g')" by blast
  have "min (val par_a) (val par_b) \<le> val p \<and> val p \<le> max (val par_a) (val par_b)"
    using c [OF pre, THEN conjunct1] r by blast
  then have "1 / 4 \<le> val p \<and> val p \<le> 3 / 4" by (simp add: par_a_def par_b_def)
  with r
  have 3: "\<exists>p g'. breed par_a par_b (\<lambda>n. 1 / 2) = Inr (p, g') \<and> 1 / 4 \<le> val p \<and> val p \<le> 3 / 4"
    by blast
  from wf ud 1 2 3 show ?thesis by blast
qed

subsection \<open>Moving a parameter towards a value\<close>



subsection \<open>The range of a parameter's value\<close>






subsection \<open>Evaluating a candidate\<close>

lemma dict_get_present:
  "k \<in> set (keys d) \<Longrightarrow> dict_get d k = Inr (the (map_of d k))"
  by (auto simp add: dict_get_def keys_def map_of_eq_None_iff split: option.splits)

lemma squared_error_loop_sum:
  "set (keys items) \<subseteq> set (keys outs) \<Longrightarrow>
   squared_error_loop items outs acc =
     Inr (acc + (\<Sum>kt\<leftarrow>items. (relative_error (snd kt) (the (map_of outs (fst kt)))) ^ 2))"
proof (induction items outs acc rule: squared_error_loop.induct)
  case (1 outs squared_error)
  then show ?case by simp
next
  case (2 target_name target_value items outs squared_error)
  have k: "dict_get outs target_name = Inr (the (map_of outs target_name))"
    using "2.prems" by (intro dict_get_present) (simp add: keys_def)
  have s: "set (keys items) \<subseteq> set (keys outs)" using "2.prems" by (simp add: keys_def)
  show ?case
  proof (cases "target_value = 0")
    case True
    with "2.IH"(1) [OF True s] k show ?thesis
      by (simp add: bind_def relative_error_def)
  next
    case False
    with "2.IH"(2) [OF False s] k show ?thesis
      by (simp add: bind_def relative_error_def)
  qed
qed

lemma sum_over_dict:
  assumes "distinct (keys d)"
  shows "(\<Sum>kt\<leftarrow>d. F (fst kt) (snd kt)) = (\<Sum>k\<in>set (keys d). F k (the (map_of d k)))"
proof -
  have "(\<Sum>k\<in>set (keys d). F k (the (map_of d k))) = (\<Sum>k\<leftarrow>keys d. F k (the (map_of d k)))"
    using assms by (simp add: sum_list_distinct_conv_sum_set)
  also have "\<dots> = (\<Sum>kt\<leftarrow>d. F (fst kt) (the (map_of d (fst kt))))"
    by (simp add: keys_def comp_def)
  also have "\<dots> = (\<Sum>kt\<leftarrow>d. F (fst kt) (snd kt))"
  proof (rule arg_cong [where f = sum_list], rule map_cong [OF refl])
    fix kt assume "kt \<in> set d"
    then have "map_of d (fst kt) = Some (snd kt)"
      using assms by (simp add: keys_def)
    then show "F (fst kt) (the (map_of d (fst kt))) = F (fst kt) (snd kt)" by simp
  qed
  finally show ?thesis by simp
qed

text \<open>
  Claim C2. \<^verbatim>\<open>evaluate\<close> raises the key-mismatch \<^verbatim>\<open>ValueError\<close> unless the outcomes have
  the key set of the targets; otherwise it stores the outcomes and sets
  \<^verbatim>\<open>evaluated_error\<close> to the square root of the sum over the metrics of the squared
  relative errors. The targets are a dictionary: their keys are distinct.
\<close>

theorem evaluate_contract:
  assumes "distinct (keys (targets self))"
  shows
    "(set (keys (targets self)) \<noteq> set (keys outs) \<longrightarrow>
        evaluate self outs = Inl (ValueError Different_keys)) \<and>
     (set (keys (targets self)) = set (keys outs) \<longrightarrow>
        evaluate self outs =
          Inr (self\<lparr>outcomes := Some outs,
                    evaluated_error :=
                      sqrt (\<Sum>k\<in>set (keys (targets self)).
                              (relative_error (the (map_of (targets self) k))
                                 (the (map_of outs k))) ^ 2)\<rparr>))"
proof (intro conjI impI)
  assume "set (keys (targets self)) \<noteq> set (keys outs)"
  then show "evaluate self outs = Inl (ValueError Different_keys)"
    by (simp add: evaluate_def)
next
  assume eq: "set (keys (targets self)) = set (keys outs)"
  have "squared_error_loop (targets self) outs 0 =
          Inr (\<Sum>kt\<leftarrow>targets self. (relative_error (snd kt) (the (map_of outs (fst kt)))) ^ 2)"
    using squared_error_loop_sum [of "targets self" outs 0] eq by simp
  also have "(\<Sum>kt\<leftarrow>targets self. (relative_error (snd kt) (the (map_of outs (fst kt)))) ^ 2) =
        (\<Sum>k\<in>set (keys (targets self)).
            (relative_error (the (map_of (targets self) k)) (the (map_of outs k))) ^ 2)"
    using sum_over_dict [OF assms, of "\<lambda>k t. (relative_error t (the (map_of outs k))) ^ 2"]
    by simp
  finally show "evaluate self outs =
          Inr (self\<lparr>outcomes := Some outs,
                    evaluated_error :=
                      sqrt (\<Sum>k\<in>set (keys (targets self)).
                              (relative_error (the (map_of (targets self) k))
                                 (the (map_of outs k))) ^ 2)\<rparr>)"
    using eq by (simp add: evaluate_def bind_def)
qed

text \<open>
  The example of the claim: targets \<open>{a: 100, b: 0}\<close> and outcomes \<open>{a: 110, b: 0.001}\<close>
  give the error \<open>sqrt (0.01 + 1)\<close>.
\<close>

theorem evaluate_contract_witness:
  "distinct (keys (targets cand_ab)) \<and>
   evaluate cand_ab [(''a'', 110), (''b'', 1 / 1000)] =
     Inr (cand_ab\<lparr>outcomes := Some [(''a'', 110), (''b'', 1 / 1000)],
                  evaluated_error := sqrt (1 / 100 + 1)\<rparr>) \<and>
   evaluate cand_ab [(''a'', 110)] = Inl (ValueError Different_keys)"
proof -
  have d: "distinct (keys (targets cand_ab))"
    by (simp add: cand_ab_def keys_def)
  have k: "set (keys (targets cand_ab)) = set (keys [(''a'', 110::real), (''b'', 1 / 1000)])"
    by (simp add: cand_ab_def keys_def)
  have k': "set (keys (targets cand_ab)) \<noteq> set (keys [(''a'', 110::real)])"
    by (simp add: cand_ab_def keys_def)
  have s: "(\<Sum>k\<in>set (keys (targets cand_ab)).
              (relative_error (the (map_of (targets cand_ab) k))
                 (the (map_of [(''a'', 110), (''b'', 1 / 1000)] k))) ^ 2) = 1 / 100 + 1"
    by (simp add: cand_ab_def keys_def relative_error_def power2_eq_square)
  have 1: "evaluate cand_ab [(''a'', 110), (''b'', 1 / 1000)] =
     Inr (cand_ab\<lparr>outcomes := Some [(''a'', 110), (''b'', 1 / 1000)],
                  evaluated_error := sqrt (1 / 100 + 1)\<rparr>)"
    using evaluate_contract [OF d, of "[(''a'', 110), (''b'', 1 / 1000)]", THEN conjunct2, THEN mp, OF k]
    unfolding s .
  have 2: "evaluate cand_ab [(''a'', 110)] = Inl (ValueError Different_keys)"
    using evaluate_contract [OF d, of "[(''a'', 110)]", THEN conjunct1, THEN mp, OF k'] .
  from d 1 2 show ?thesis by blast
qed

subsection \<open>The error contribution of each metric\<close>

lemma error_contributions_loop_step:
  "error_contributions_loop ((k, t) # items) outs acc =
     bind (dict_get outs k) (\<lambda>ov.
       error_contributions_loop items outs (dict_set acc k \<bar>relative_error t ov\<bar>))"
proof (cases "t = 0")
  case True
  show ?thesis
    unfolding error_contributions_loop.simps relative_error_def real_sqrt_abs
    using True by simp
next
  case False
  show ?thesis
    unfolding error_contributions_loop.simps relative_error_def real_sqrt_abs
    using False by simp
qed

lemma error_contributions_loop_map:
  "set (keys items) \<subseteq> set (keys outs) \<Longrightarrow> distinct (keys acc @ keys items) \<Longrightarrow>
   error_contributions_loop items outs acc =
     Inr (acc @ map (\<lambda>kt. (fst kt, \<bar>relative_error (snd kt) (the (map_of outs (fst kt)))\<bar>)) items)"
proof (induction items arbitrary: acc)
  case Nil
  then show ?case by simp
next
  case (Cons kt items)
  obtain k t where kt: "kt = (k, t)" by (cases kt)
  have g: "dict_get outs k = Inr (the (map_of outs k))"
    using Cons.prems(1) kt by (intro dict_get_present) (simp add: keys_def)
  have s: "set (keys items) \<subseteq> set (keys outs)" using Cons.prems(1) by (simp add: keys_def)
  have n: "k \<notin> set (keys acc)" using Cons.prems(2) kt by (auto simp add: keys_def)
  have d: "distinct (keys (acc @ [(k, v)]) @ keys items)" for v :: real
    using Cons.prems(2) kt by (auto simp add: keys_def)
  show ?case
    unfolding kt error_contributions_loop_step g
    using Cons.IH [OF s d] n by (simp add: bind_def dict_set_new)
qed

text \<open>
  Once \<^verbatim>\<open>evaluate\<close> has stored outcomes, the method raises when the key sets differ and
  otherwise returns, for each metric of the targets in their order, the absolute value of
  its relative error.
\<close>

theorem error_contributions_evaluated:
  assumes "outcomes self = Some outs" and "distinct (keys (targets self))"
  shows "evaluate_individual_error_contributions self =
          (if set (keys (targets self)) \<noteq> set (keys outs) then Inl NameError
           else Inr (map (\<lambda>kt. (fst kt, \<bar>relative_error (snd kt) (the (map_of outs (fst kt)))\<bar>))
                       (targets self)))"
  using assms error_contributions_loop_map [of "targets self" outs "[]"]
  by (simp add: evaluate_individual_error_contributions_def keys_def)

theorem error_contributions_evaluated_witness:
  "evaluate cand_ab [(''a'', 110), (''b'', 1 / 1000)] =
     Inr (cand_ab\<lparr>outcomes := Some [(''a'', 110), (''b'', 1 / 1000)],
                  evaluated_error := sqrt (1 / 100 + 1)\<rparr>) \<and>
   evaluate_individual_error_contributions
     (cand_ab\<lparr>outcomes := Some [(''a'', 110), (''b'', 1 / 1000)],
              evaluated_error := sqrt (1 / 100 + 1)\<rparr>) =
     Inr [(''a'', 1 / 10), (''b'', 1)]"
proof -
  let ?c = "cand_ab\<lparr>outcomes := Some [(''a'', 110), (''b'', 1 / 1000)],
                    evaluated_error := sqrt (1 / 100 + 1)\<rparr>"
  have e: "evaluate cand_ab [(''a'', 110), (''b'', 1 / 1000)] = Inr ?c"
    by (simp add: evaluate_def cand_ab_def GeneticCalibration_init_def keys_def bind_def
        dict_get_def power2_eq_square)
  have o: "outcomes ?c = Some [(''a'', 110), (''b'', 1 / 1000)]" by simp
  have d: "distinct (keys (targets ?c))" by (simp add: cand_ab_def keys_def)
  have "evaluate_individual_error_contributions ?c = Inr [(''a'', 1 / 10), (''b'', 1)]"
    unfolding error_contributions_evaluated [OF o d]
    by (simp add: cand_ab_def keys_def relative_error_def)
  with e show ?thesis by blast
qed

text \<open>
  Claim C8 requires \<^verbatim>\<open>evaluate_individual_error_contributions\<close> to fail on a candidate
  that \<^verbatim>\<open>evaluate\<close> was never called on. The method tests \<^verbatim>\<open>self.__outcomes == None\<close> for
  that, but the constructor sets the attribute to the empty dictionary: on a candidate
  as constructed, the test is false, the empty key sets agree, and the method returns
  the empty dictionary.
\<close>

theorem error_contributions_without_evaluate:
  "outcomes GeneticCalibration_init = Some [] \<and>
   evaluate_individual_error_contributions GeneticCalibration_init = Inr []"
  by (simp add: evaluate_individual_error_contributions_def GeneticCalibration_init_def keys_def)

subsection \<open>Removing a parameter from a group\<close>

text \<open>Removing a parameter whose name the group does not hold changes nothing.\<close>

theorem group_remove_absent:
  "name p \<notin> set (keys (param_index_dict grp)) \<Longrightarrow> group_remove grp p = (grp, None)"
  by (simp add: group_remove_def)

theorem group_remove_absent_witness: "group_remove group_x par_y = (group_x, None)"
proof -
  have "name par_y \<notin> set (keys (param_index_dict group_x))"
    by (simp add: par_y_def group_x_def keys_def)
  then show ?thesis by (rule group_remove_absent)
qed

text \<open>
  Removing a parameter whose name the group holds always ends in an exception, and the
  list of parameters is as it was.
\<close>

theorem group_remove_present:
  assumes "name p \<in> set (keys (param_index_dict grp))"
  shows "\<exists>grp' e. group_remove grp p = (grp', Some e) \<and> param_list grp' = param_list grp"
  using assms
  by (auto simp add: group_remove_def split: sum.splits)

theorem group_remove_present_witness:
  "\<exists>grp' e. group_remove group_x par_a = (grp', Some e) \<and> param_list grp' = [par_a]"
proof -
  have "name par_a \<in> set (keys (param_index_dict group_x))"
    by (simp add: par_a_def group_x_def keys_def)
  from group_remove_present [OF this] show ?thesis by (simp add: group_x_def)
qed

text \<open>
  Claim C7 requires \<^verbatim>\<open>remove\<close> to take a present parameter out of the list and to leave
  the index dictionary consistent with the list. On the group built by appending \<open>x\<close>
  and then \<open>y\<close>, \<^verbatim>\<open>remove(x)\<close> moves \<open>y\<close> to index \<open>0\<close> and deletes the entry of \<open>x\<close>, and
  then raises \<^verbatim>\<open>TypeError\<close> at \<^verbatim>\<open>pop([idx])\<close>: the list still holds \<open>x\<close> at index \<open>0\<close>.
\<close>

theorem remove_raises_TypeError:
  "group_append BreedableParameterGoup_init par_a = Inr group_x \<and>
   group_append group_x par_y = Inr group_xy \<and>
   group_remove group_xy par_a =
     (\<lparr>param_list = [par_a, par_y], param_index_dict = [(''y'', 0)]\<rparr>, Some TypeError)"
  by (simp add: group_remove_def group_append_def group_xy_def group_x_def par_a_def par_y_def
      BreedableParameterGoup_init_def keys_def dict_get_def dict_del_def reindex_def)

subsection \<open>The gradient update of a group\<close>

lemma target_multipliers_loop_keys:
  "set (keys items) \<subseteq> set (keys tgts) \<Longrightarrow>
   \<exists>m. target_multipliers_loop items tgts acc = Inr m \<and>
       set (keys m) \<subseteq> set (keys acc) \<union>
         {k. \<exists>v. (k, v) \<in> set items \<and> v \<noteq> 0 \<and> map_of tgts k \<noteq> Some 0}"
proof (induction items arbitrary: acc)
  case Nil
  then show ?case by simp
next
  case (Cons kv items)
  obtain k v where kv: "kv = (k, v)" by (cases kv)
  have g: "dict_get tgts k = Inr (the (map_of tgts k))"
    using Cons.prems kv by (intro dict_get_present) (simp add: keys_def)
  have s: "set (keys items) \<subseteq> set (keys tgts)" using Cons.prems by (simp add: keys_def)
  have t: "map_of tgts k = Some (the (map_of tgts k))"
    using g by (auto simp add: dict_get_def split: option.splits)
  show ?case
  proof (cases "the (map_of tgts k) = 0 \<or> v = 0")
    case True
    from Cons.IH [OF s, of acc] obtain m where
      m: "target_multipliers_loop items tgts acc = Inr m"
      "set (keys m) \<subseteq> set (keys acc) \<union>
         {k. \<exists>v. (k, v) \<in> set items \<and> v \<noteq> 0 \<and> map_of tgts k \<noteq> Some 0}" by blast
    have "target_multipliers_loop (kv # items) tgts acc = Inr m"
      using True m(1) g kv by (simp add: bind_def)
    moreover have "set (keys m) \<subseteq> set (keys acc) \<union>
         {k. \<exists>v. (k, v) \<in> set (kv # items) \<and> v \<noteq> 0 \<and> map_of tgts k \<noteq> Some 0}"
      using m(2) by auto
    ultimately show ?thesis by blast
  next
    case False
    let ?acc = "dict_set acc k (1 / (v / the (map_of tgts k)))"
    from Cons.IH [OF s, of ?acc] obtain m where
      m: "target_multipliers_loop items tgts ?acc = Inr m"
      "set (keys m) \<subseteq> set (keys ?acc) \<union>
         {k. \<exists>v. (k, v) \<in> set items \<and> v \<noteq> 0 \<and> map_of tgts k \<noteq> Some 0}" by blast
    have "target_multipliers_loop (kv # items) tgts acc = Inr m"
      using False m(1) g kv by (simp add: bind_def)
    moreover have "(k, v) \<in> set (kv # items) \<and> v \<noteq> 0 \<and> map_of tgts k \<noteq> Some 0"
      using False kv t by auto
    then have "set (keys m) \<subseteq> set (keys acc) \<union>
         {k. \<exists>v. (k, v) \<in> set (kv # items) \<and> v \<noteq> 0 \<and> map_of tgts k \<noteq> Some 0}"
      using m(2) unfolding keys_dict_set by auto
    ultimately show ?thesis by blast
  qed
qed

lemma target_param_val_loop_find:
  "target_param_val_loop ps idx pn tm weights =
     (case find (\<lambda>tw. pn \<in> set (keys (snd tw))) weights of
        None \<Rightarrow> Inr None
      | Some tw \<Rightarrow>
          bind (list_get ps idx) (\<lambda>p.
          bind (dict_get (snd tw) pn) (\<lambda>weight.
          bind (dict_get tm (fst tw)) (\<lambda>multiplier.
          Inr (Some (val p * weight * multiplier))))))"
  by (induction ps idx pn tm weights rule: target_param_val_loop.induct) simp_all

text \<open>
  Claim C10. \<^verbatim>\<open>gradient_update_to_target\<close> is not total when a metric is skipped. Let the
  first parameter of the group have, as the first metric of
  \<^verbatim>\<open>target_to_parameters_weights\<close> whose weights name it, a metric whose target or outcome
  is zero (the outcomes being a dictionary whose keys all have targets, so that the
  multipliers are computed). Then no multiplier is stored for that metric and the lookup
  \<^verbatim>\<open>target_multipliers[target_name]\<close> raises \<^verbatim>\<open>KeyError\<close>; the parameter is not left
  unchanged.
\<close>

theorem gradient_update_raises_KeyError:
  assumes "param_index_dict grp = (param_name, idx) # rest"
    and "idx < length (param_list grp)"
    and "find (\<lambda>tw. param_name \<in> set (keys (snd tw))) weights = Some (target_name, weight_dict)"
    and "distinct (keys outs)" and "set (keys outs) \<subseteq> set (keys tgts)"
    and "dict_get tgts target_name = Inr 0 \<or> dict_get outs target_name = Inr 0"
  shows "group_gradient_update_to_target grp outs tgts weights = Inl (KeyError target_name)"
proof -
  from target_multipliers_loop_keys [OF assms(5), of "[]"] obtain m where
    m: "target_multipliers_loop outs tgts [] = Inr m"
    and km: "set (keys m) \<subseteq> {k. \<exists>v. (k, v) \<in> set outs \<and> v \<noteq> 0 \<and> map_of tgts k \<noteq> Some 0}"
    by (auto simp add: keys_def)
  have "target_name \<notin> set (keys m)"
  proof
    assume "target_name \<in> set (keys m)"
    with km obtain v where v: "(target_name, v) \<in> set outs" "v \<noteq> 0"
      "map_of tgts target_name \<noteq> Some 0" by blast
    from v(1) assms(4) have "map_of outs target_name = Some v" by (simp add: keys_def)
    with v(2,3) assms(6) show False
      by (auto simp add: dict_get_def split: option.splits)
  qed
  then have nm: "dict_get m target_name = Inl (KeyError target_name)"
    using map_of_eq_None_iff [of m target_name] by (simp add: dict_get_def keys_def)
  have w: "param_name \<in> set (keys weight_dict)"
    using assms(3) by (auto simp add: find_Some_iff dest: sym)
  have "target_param_val_loop (param_list grp) idx param_name m weights = Inl (KeyError target_name)"
    using assms(2,3) nm dict_get_present [OF w]
    by (simp add: target_param_val_loop_find bind_def list_get_def)
  then show ?thesis
    using m assms(1) by (simp add: group_gradient_update_to_target_def bind_def)
qed

theorem gradient_update_raises_KeyError_witness:
  "group_gradient_update_to_target group_x [(''m'', 0)] [(''m'', 1)] [(''m'', [(''x'', 1)])] =
     Inl (KeyError ''m'') \<and>
   group_gradient_update_to_target group_x [(''m'', 2)] [(''m'', 0)] [(''m'', [(''x'', 1)])] =
     Inl (KeyError ''m'')"
proof -
  have 1: "param_index_dict group_x = (''x'', 0) # []" "0 < length (param_list group_x)"
    by (simp_all add: group_x_def)
  have 2: "find (\<lambda>tw. ''x'' \<in> set (keys (snd tw))) [(''m'', [(''x'', 1::real)])] =
             Some (''m'', [(''x'', 1)])"
    by (simp add: keys_def)
  have a: "group_gradient_update_to_target group_x [(''m'', 0)] [(''m'', 1)]
             [(''m'', [(''x'', 1)])] = Inl (KeyError ''m'')"
    by (rule gradient_update_raises_KeyError [OF 1 2]) (simp_all add: keys_def dict_get_def)
  have b: "group_gradient_update_to_target group_x [(''m'', 2)] [(''m'', 0)]
             [(''m'', [(''x'', 1)])] = Inl (KeyError ''m'')"
    by (rule gradient_update_raises_KeyError [OF 1 2]) (simp_all add: keys_def dict_get_def)
  from a b show ?thesis by blast
qed

subsection \<open>The weighted-adjustment advance\<close>

text \<open>
  Claim C1 says that indices 2 to 9 of the result are the gradient updates of the
  candidates ranked 3rd to 10th. The code updates the candidates ranked 1st to 8th: on
  the example population, whose candidates carry the parameter values \<open>0, 0.1, \<dots>, 0.9\<close> in
  the order of their errors, index 2 of the result is the update of the best candidate,
  not of the one ranked 3rd.
\<close>

theorem weighted_adjustment_counterexample:
  "length pop10 = 10 \<and>
   evaluate (fresh (2 / 10)) [(''m'', 1 + 2)] = Inr (sort_calibrations pop10 ! 2) \<and>
   gradient_update_to_target (sort_calibrations pop10 ! 2) = Inr (fresh (2 / 10)) \<and>
   perform_weighted_parameter_adjustments pop10 =
     Inr [cand 0 0, cand (1 / 10) 1, fresh 0, fresh (1 / 10), fresh (2 / 10), fresh (3 / 10),
          fresh (4 / 10), fresh (5 / 10), fresh (6 / 10), fresh (7 / 10)] \<and>
   [cand 0 0, cand (1 / 10) 1, fresh 0, fresh (1 / 10), fresh (2 / 10), fresh (3 / 10),
    fresh (4 / 10), fresh (5 / 10), fresh (6 / 10), fresh (7 / 10)] ! 2 \<noteq> fresh (2 / 10)"
  using evaluate_fresh [of 2 "2 / 10"]
  by (simp add: perform_weighted_pop10 sort_pop10 gradient_update_cand fresh_inject)
    (simp add: pop10_def)

text \<open>
  Claim C1, as amended. A list whose size is not 10 raises \<^verbatim>\<open>IndexError\<close>. For a list of
  10 candidates, let \<open>s\<close> be the list sorted by error (a stable sort, so a permutation in
  ascending order of \<^verbatim>\<open>evaluated_error\<close>). The advance returns \<open>ys\<close> exactly when \<open>ys\<close> has
  10 elements, \<open>ys ! 0 = s ! 0\<close>, \<open>ys ! 1 = s ! 1\<close>, and \<open>ys ! (k + 2)\<close> is what
  \<^verbatim>\<open>gradient_update_to_target\<close> returns for \<open>s ! k\<close>, for \<open>k = 0, \<dots>, 7\<close>; and an exception
  of the advance is the exception of one of these eight updates.
\<close>

theorem weighted_adjustment_advance:
  "(length gcs \<noteq> 10 \<longrightarrow> perform_weighted_parameter_adjustments gcs = Inl (IndexError List_not_exactly_ten_items)) \<and>
   (length gcs = 10 \<longrightarrow>
      mset (sort_calibrations gcs) = mset gcs \<and>
      sorted (map evaluated_error (sort_calibrations gcs)) \<and>
      (\<forall>ys. perform_weighted_parameter_adjustments gcs = Inr ys \<longleftrightarrow>
         length ys = 10 \<and>
         ys ! 0 = sort_calibrations gcs ! 0 \<and> ys ! 1 = sort_calibrations gcs ! 1 \<and>
         (\<forall>k<8. gradient_update_to_target (sort_calibrations gcs ! k) = Inr (ys ! (k + 2)))) \<and>
      (\<forall>e. perform_weighted_parameter_adjustments gcs = Inl e \<longrightarrow>
         (\<exists>k<8. gradient_update_to_target (sort_calibrations gcs ! k) = Inl e)))"
proof (intro conjI impI allI)
  assume "length gcs \<noteq> 10"
  then show "perform_weighted_parameter_adjustments gcs = Inl (IndexError List_not_exactly_ten_items)"
    by (simp add: perform_weighted_parameter_adjustments_def)
next
  assume "length gcs = 10"
  show "mset (sort_calibrations gcs) = mset gcs" by (simp add: sort_calibrations_def)
next
  assume "length gcs = 10"
  show "sorted (map evaluated_error (sort_calibrations gcs))"
    by (simp add: sort_calibrations_def)
next
  fix ys
  assume len: "length gcs = 10"
  let ?s = "sort_calibrations gcs"
  have ls: "length ?s = 10" using len by (simp add: sort_calibrations_def)
  have nth: "k < 8 \<Longrightarrow> take 8 ?s ! k = ?s ! k" for k by simp
  show "perform_weighted_parameter_adjustments gcs = Inr ys \<longleftrightarrow>
         length ys = 10 \<and> ys ! 0 = ?s ! 0 \<and> ys ! 1 = ?s ! 1 \<and>
         (\<forall>k<8. gradient_update_to_target (?s ! k) = Inr (ys ! (k + 2)))"
  proof
    assume "perform_weighted_parameter_adjustments gcs = Inr ys"
    then obtain us where u: "update_each (take 8 ?s) = Inr us" and ys: "ys = ?s ! 0 # ?s ! 1 # us"
      unfolding perform_weighted_as_update_each [OF len]
      by (auto simp add: bind_def split: sum.splits)
    from u have "length us = 8" and "\<forall>k<8. gradient_update_to_target (?s ! k) = Inr (us ! k)"
      using ls by (simp_all add: update_each_Inr)
    with ys show "length ys = 10 \<and> ys ! 0 = ?s ! 0 \<and> ys ! 1 = ?s ! 1 \<and>
         (\<forall>k<8. gradient_update_to_target (?s ! k) = Inr (ys ! (k + 2)))"
      by simp
  next
    assume a: "length ys = 10 \<and> ys ! 0 = ?s ! 0 \<and> ys ! 1 = ?s ! 1 \<and>
         (\<forall>k<8. gradient_update_to_target (?s ! k) = Inr (ys ! (k + 2)))"
    then obtain y0 y1 us where ys: "ys = y0 # y1 # us" and lu: "length us = 8"
      by (cases ys; cases "tl ys") auto
    from a ys have y: "y0 = ?s ! 0" "y1 = ?s ! 1"
      and us: "\<forall>k<8. gradient_update_to_target (?s ! k) = Inr (us ! k)" by simp_all
    have "update_each (take 8 ?s) = Inr us"
      using lu ls us by (simp add: update_each_Inr)
    then show "perform_weighted_parameter_adjustments gcs = Inr ys"
      unfolding perform_weighted_as_update_each [OF len] using ys y by (simp add: bind_def)
  qed
next
  fix e
  assume len: "length gcs = 10"
    and r: "perform_weighted_parameter_adjustments gcs = Inl e"
  let ?s = "sort_calibrations gcs"
  have ls: "length ?s = 10" using len by (simp add: sort_calibrations_def)
  from r have "update_each (take 8 ?s) = Inl e"
    unfolding perform_weighted_as_update_each [OF len]
    by (auto simp add: bind_def split: sum.splits)
  from update_each_Inl [OF this] ls
  show "\<exists>k<8. gradient_update_to_target (?s ! k) = Inl e" by auto
qed

theorem weighted_adjustment_advance_witness:
  "length pop10 = 10 \<and>
   perform_weighted_parameter_adjustments pop10 =
     Inr [cand 0 0, cand (1 / 10) 1, fresh 0, fresh (1 / 10), fresh (2 / 10), fresh (3 / 10),
          fresh (4 / 10), fresh (5 / 10), fresh (6 / 10), fresh (7 / 10)] \<and>
   sort_calibrations pop10 ! 0 = cand 0 0 \<and>
   sort_calibrations pop10 ! 1 = cand (1 / 10) 1 \<and>
   gradient_update_to_target (sort_calibrations pop10 ! 0) = Inr (fresh 0) \<and>
   gradient_update_to_target (sort_calibrations pop10 ! 7) = Inr (fresh (7 / 10)) \<and>
   perform_weighted_parameter_adjustments (tl pop10) = Inl (IndexError List_not_exactly_ten_items)"
proof -
  let ?ys = "[cand 0 0, cand (1 / 10) 1, fresh 0, fresh (1 / 10), fresh (2 / 10), fresh (3 / 10),
          fresh (4 / 10), fresh (5 / 10), fresh (6 / 10), fresh (7 / 10)]"
  have len: "length pop10 = 10" by (simp add: pop10_def)
  have len': "length (tl pop10) \<noteq> 10" by (simp add: pop10_def)
  note T = weighted_adjustment_advance [of pop10, THEN conjunct2, THEN mp, OF len]
  note I = T [THEN conjunct2, THEN conjunct2, THEN conjunct1, THEN spec, of ?ys]
  from I perform_weighted_pop10
  have f: "?ys ! 0 = sort_calibrations pop10 ! 0 \<and> ?ys ! 1 = sort_calibrations pop10 ! 1 \<and>
     (\<forall>k<8. gradient_update_to_target (sort_calibrations pop10 ! k) = Inr (?ys ! (k + 2)))"
    by blast
  then have "gradient_update_to_target (sort_calibrations pop10 ! 0) = Inr (?ys ! (0 + 2))"
    and "gradient_update_to_target (sort_calibrations pop10 ! 7) = Inr (?ys ! (7 + 2))"
    by simp_all
  then have g: "gradient_update_to_target (sort_calibrations pop10 ! 0) = Inr (fresh 0)"
    "gradient_update_to_target (sort_calibrations pop10 ! 7) = Inr (fresh (7 / 10))"
    by simp_all
  from f have h: "sort_calibrations pop10 ! 0 = cand 0 0"
    "sort_calibrations pop10 ! 1 = cand (1 / 10) 1" by simp_all
  have e: "perform_weighted_parameter_adjustments (tl pop10) = Inl (IndexError List_not_exactly_ten_items)"
    using weighted_adjustment_advance [of "tl pop10", THEN conjunct1] len' by blast
  from len perform_weighted_pop10 g h e show ?thesis by blast
qed

subsection \<open>The genetic-mixing advance\<close>

lemma sort_pop_mismatch: "sort_calibrations pop_mismatch = pop_mismatch"
  by (simp add: sort_calibrations_def pop_mismatch_def evaluated_error_cand bare_def)

lemma calibration_breed_mismatch:
  "calibration_breed (cand v e) (bare e') g = Inl (ValueError Breed_different_list_sizes)"
  by (simp add: calibration_breed_def cand_def fresh_def bare_def GeneticCalibration_init_def
      BreedableParameterGoup_init_def)

text \<open>
  Claim C3 says that every list of 10 evaluated candidates yields 10 candidates. The
  breeding of two candidates has guards of its own: when the two best candidates have
  parameter lists of different sizes, \<^verbatim>\<open>GeneticCalibration.breed\<close> raises \<^verbatim>\<open>ValueError\<close>,
  and so does the advance.
\<close>

theorem genetic_mixing_counterexample:
  "length pop_mismatch = 10 \<and>
   perform_genetic_mixing pop_mismatch (\<lambda>n. 1 / 2) =
     Inl (ValueError Breed_different_list_sizes)"
  by (simp add: perform_genetic_mixing_def sort_pop_mismatch)
    (simp add: pop_mismatch_def calibration_breed_mismatch bind_def)

text \<open>
  Claim C3, as amended. A list whose size is not 10 raises \<^verbatim>\<open>IndexError\<close>. For a list of
  10 candidates, let \<open>s\<close> be the list sorted by error. If the advance returns \<open>ys\<close>, then
  \<open>ys\<close> has 10 elements, \<open>ys ! 0 = s ! 0\<close>, and \<open>ys ! (k + 1)\<close> is the result of breeding the
  candidates of \<open>s\<close> at the \<open>k\<close>-th pair of
  \<open>(0,1) (0,2) (0,3) (1,2) (1,3) (1,4) (2,3) (2,4) (3,4)\<close>, each breeding starting from the
  random generator that the previous one left; conversely, when these nine breedings
  return, the advance returns the best candidate followed by their results; and an
  exception of the advance is the exception of one of the nine breedings.
\<close>

theorem genetic_mixing_advance:
  "mixing_pairs = [(0, 1), (0, 2), (0, 3), (1, 2), (1, 3), (1, 4), (2, 3), (2, 4), (3, 4)] \<and>
   (length gcs \<noteq> 10 \<longrightarrow> perform_genetic_mixing gcs g = Inl (IndexError List_not_exactly_ten_items)) \<and>
   (length gcs = 10 \<longrightarrow>
      mset (sort_calibrations gcs) = mset gcs \<and>
      sorted (map evaluated_error (sort_calibrations gcs)) \<and>
      (\<forall>ys g'. perform_genetic_mixing gcs g = Inr (ys, g') \<longrightarrow>
         length ys = 10 \<and> ys ! 0 = sort_calibrations gcs ! 0 \<and>
         (\<exists>gs. gs 0 = g \<and> gs 9 = g' \<and>
            (\<forall>k<9. calibration_breed (sort_calibrations gcs ! fst (mixing_pairs ! k))
                      (sort_calibrations gcs ! snd (mixing_pairs ! k)) (gs k) =
                    Inr (ys ! (k + 1), gs (Suc k))))) \<and>
      (\<forall>gs cs. gs 0 = g \<and>
           (\<forall>k<9. calibration_breed (sort_calibrations gcs ! fst (mixing_pairs ! k))
                     (sort_calibrations gcs ! snd (mixing_pairs ! k)) (gs k) =
                   Inr (cs k, gs (Suc k))) \<longrightarrow>
         perform_genetic_mixing gcs g =
           Inr (sort_calibrations gcs ! 0 # map cs [0..<9], gs 9)) \<and>
      (\<forall>e. perform_genetic_mixing gcs g = Inl e \<longrightarrow>
         (\<exists>k<9. \<exists>gk. calibration_breed (sort_calibrations gcs ! fst (mixing_pairs ! k))
                        (sort_calibrations gcs ! snd (mixing_pairs ! k)) gk = Inl e)))"
proof (intro conjI impI allI)
  show "mixing_pairs = [(0, 1), (0, 2), (0, 3), (1, 2), (1, 3), (1, 4), (2, 3), (2, 4), (3, 4)]"
    by (simp add: mixing_pairs_def)
next
  assume "length gcs \<noteq> 10"
  then show "perform_genetic_mixing gcs g = Inl (IndexError List_not_exactly_ten_items)"
    by (simp add: perform_genetic_mixing_def)
next
  show "mset (sort_calibrations gcs) = mset gcs" by (simp add: sort_calibrations_def)
next
  show "sorted (map evaluated_error (sort_calibrations gcs))"
    by (simp add: sort_calibrations_def)
next
  fix ys g'
  assume len: "length gcs = 10" and r: "perform_genetic_mixing gcs g = Inr (ys, g')"
  let ?s = "sort_calibrations gcs"
  have lp: "length mixing_pairs = 9" by (simp add: mixing_pairs_def)
  from r obtain cs where b: "breed_each ?s mixing_pairs g = Inr (cs, g')" and ys: "ys = ?s ! 0 # cs"
    unfolding perform_genetic_mixing_as_breed_each [OF len]
    by (auto simp add: bind_def split: sum.splits prod.splits)
  from breed_each_Inr [OF b] lp obtain gs where "length cs = 9" "gs 0 = g" "gs 9 = g'"
    "\<forall>k<9. calibration_breed (?s ! fst (mixing_pairs ! k)) (?s ! snd (mixing_pairs ! k)) (gs k) =
        Inr (cs ! k, gs (Suc k))"
    by auto
  with ys show "length ys = 10" and "ys ! 0 = ?s ! 0"
    and "\<exists>gs. gs 0 = g \<and> gs 9 = g' \<and>
            (\<forall>k<9. calibration_breed (?s ! fst (mixing_pairs ! k))
                      (?s ! snd (mixing_pairs ! k)) (gs k) = Inr (ys ! (k + 1), gs (Suc k)))"
    by auto
next
  fix gs cs
  assume len: "length gcs = 10"
    and a: "gs 0 = g \<and>
           (\<forall>k<9. calibration_breed (sort_calibrations gcs ! fst (mixing_pairs ! k))
                     (sort_calibrations gcs ! snd (mixing_pairs ! k)) (gs k) =
                   Inr (cs k, gs (Suc k)))"
  have lp: "length mixing_pairs = 9" by (simp add: mixing_pairs_def)
  from a lp have "\<forall>k<length mixing_pairs.
      calibration_breed (sort_calibrations gcs ! fst (mixing_pairs ! k))
        (sort_calibrations gcs ! snd (mixing_pairs ! k)) (gs k) = Inr (cs k, gs (Suc k))"
    by simp
  from breed_each_returns [OF this] a lp
  have "breed_each (sort_calibrations gcs) mixing_pairs g = Inr (map cs [0..<9], gs 9)"
    by simp
  then show "perform_genetic_mixing gcs g =
           Inr (sort_calibrations gcs ! 0 # map cs [0..<9], gs 9)"
    unfolding perform_genetic_mixing_as_breed_each [OF len] by (simp add: bind_def)
next
  fix e
  assume len: "length gcs = 10" and r: "perform_genetic_mixing gcs g = Inl e"
  have lp: "length mixing_pairs = 9" by (simp add: mixing_pairs_def)
  from r have "breed_each (sort_calibrations gcs) mixing_pairs g = Inl e"
    unfolding perform_genetic_mixing_as_breed_each [OF len]
    by (auto simp add: bind_def split: sum.splits prod.splits)
  from breed_each_Inl [OF this] lp
  show "\<exists>k<9. \<exists>gk. calibration_breed (sort_calibrations gcs ! fst (mixing_pairs ! k))
                        (sort_calibrations gcs ! snd (mixing_pairs ! k)) gk = Inl e"
    by simp
qed

theorem genetic_mixing_advance_witness:
  "length pop10 = 10 \<and>
   perform_genetic_mixing pop10 (\<lambda>n. 1 / 2) =
     Inr ([cand 0 0, fresh (1 / 20), fresh (2 / 20), fresh (3 / 20), fresh (3 / 20),
           fresh (4 / 20), fresh (5 / 20), fresh (5 / 20), fresh (6 / 20), fresh (7 / 20)],
          \<lambda>n. 1 / 2) \<and>
   sort_calibrations pop10 ! 0 = cand 0 0 \<and>
   perform_genetic_mixing (tl pop10) (\<lambda>n. 1 / 2) = Inl (IndexError List_not_exactly_ten_items)"
proof -
  let ?ys = "[cand 0 0, fresh (1 / 20), fresh (2 / 20), fresh (3 / 20), fresh (3 / 20),
           fresh (4 / 20), fresh (5 / 20), fresh (5 / 20), fresh (6 / 20), fresh (7 / 20)]"
  have len: "length pop10 = 10" by (simp add: pop10_def)
  have len': "length (tl pop10) \<noteq> 10" by (simp add: pop10_def)
  note T = genetic_mixing_advance [of pop10 "\<lambda>n. 1 / 2", THEN conjunct2, THEN conjunct2,
      THEN mp, OF len]
  note I = T [THEN conjunct2, THEN conjunct2, THEN conjunct1, THEN spec, THEN spec, THEN mp,
      OF perform_genetic_mixing_pop10]
  from I have h: "sort_calibrations pop10 ! 0 = cand 0 0" by simp
  have e: "perform_genetic_mixing (tl pop10) (\<lambda>n. 1 / 2) = Inl (IndexError List_not_exactly_ten_items)"
    using genetic_mixing_advance [of "tl pop10" "\<lambda>n. 1 / 2", THEN conjunct2, THEN conjunct1]
      len' by blast
  from len perform_genetic_mixing_pop10 h e show ?thesis by blast
qed

end
